theory Spec2Isabelle
  imports Main "HOL-Library.Word" "HOL-Library.Product_Lexorder"
begin

section \<open>Job runner: output truncation (internal/executor/runner.go)\<close>

text \<open>
  Go strings are byte sequences and \<open>len\<close> counts bytes, so an output is a
  \<^typ>\<open>string\<close> (a list of 8-bit characters) and its size is \<^const>\<open>length\<close>.
\<close>

definition maxOutputSize :: nat where
  "maxOutputSize = 1024 * 1024"

definition maxHeadLines :: nat where
  "maxHeadLines = 500"

text \<open>\<open>strings.Split(s, "\n")\<close>: the pieces between line feeds, one more than the
  number of line feeds.\<close>

fun split_lines :: "string \<Rightarrow> string list" where
  "split_lines [] = [[]]"
| "split_lines (c # cs) =
     (if c = CHR 0x0A then [] # split_lines cs
      else (case split_lines cs of
              [] \<Rightarrow> [[c]]
            | l # ls \<Rightarrow> (c # l) # ls))"

text \<open>\<open>strings.Join(xs, "\n")\<close>.\<close>

fun join_lines :: "string list \<Rightarrow> string" where
  "join_lines [] = []"
| "join_lines [l] = l"
| "join_lines (l # m # ls) = l @ CHR 0x0A # join_lines (m # ls)"

text \<open>\<open>%d\<close> of a non-negative integer: its decimal digits.\<close>

definition digit_char :: "nat \<Rightarrow> char" where
  "digit_char d = char_of (48 + d)"

fun show_nat :: "nat \<Rightarrow> string" where
  "show_nat n = (if n < 10 then [digit_char n] else show_nat (n div 10) @ [digit_char (n mod 10)])"

declare show_nat.simps [simp del]

definition truncMarker :: "nat \<Rightarrow> nat \<Rightarrow> string" where
  "truncMarker nbytes nlines =
     CHR 0x0A # ''... [OUTPUT TRUNCATED - Total '' @ show_nat nbytes @ '' bytes, '' @
     show_nat nlines @ '' lines] ...'' @ [CHR 0x0A]"

text \<open>
  The backward loop over \<open>lines[maxHeadLines:]\<close>: the first argument holds the
  lines still to visit, last line first; \<open>tailSize\<close> and \<open>tailLines\<close> are the
  loop's variables. The loop stops at the first line that does not fit.
\<close>

fun collect_tail :: "string list \<Rightarrow> nat \<Rightarrow> nat \<Rightarrow> string list \<Rightarrow> string list" where
  "collect_tail [] remaining tailSize tailLines = tailLines"
| "collect_tail (l # ls) remaining tailSize tailLines =
     (let lineSize = length l + 1 in
      if tailSize + lineSize > remaining then tailLines
      else collect_tail ls remaining (tailSize + lineSize) (l # tailLines))"

definition truncateOutput :: "string \<Rightarrow> string" where
  "truncateOutput output =
     (if length output \<le> maxOutputSize then output
      else
        let lines = split_lines output in
        if length lines \<le> maxHeadLines then take maxOutputSize output
        else
          let result = join_lines (take maxHeadLines lines) @
                       truncMarker (length output) (length lines) in
          if int maxOutputSize - int (length result) \<le> 0 then take maxOutputSize result
          else
            let remaining = maxOutputSize - length result;
                tailLines = collect_tail (rev (drop maxHeadLines lines)) remaining 0 []
            in if length tailLines > 0 then result @ join_lines tailLines else result)"


section \<open>Store: the tables \<open>jobs\<close> and \<open>job_attempts\<close> (migrations)\<close>

text \<open>
  Identifiers are UUIDs, modelled as natural numbers; \<open>gen_random_uuid()\<close> is an
  input of the inserting operation. Timestamps and intervals are integers counting
  microseconds, as PostgreSQL stores them; \<open>NOW()\<close> is an input of every operation.
  The \<open>CHECK\<close> constraints on \<open>priority\<close> and \<open>status\<close> admit exactly the
  constructors below, so a stored row carries a constructor, and text that is
  not one of them is rejected when the row is inserted.
\<close>

type_synonym uuid = nat
type_synonym timestamp = int

datatype priority = Foreground | Background | BestEffort

datatype status = Pending | Running | Completed | Failed | Cancelled

record job_row =
  job_id :: uuid
  job_type :: string
  binary_url :: string
  binary_sha256 :: string
  arguments :: "string list"
  env_variables :: "(string \<times> string) list"
  priority :: priority
  status :: status
  executor_id :: "string option"
  stdout :: "string option"
  stderr :: "string option"
  exit_code :: "32 word option"
  error_message :: "string option"
  created_at :: timestamp
  started_at :: "timestamp option"
  completed_at :: "timestamp option"
  last_heartbeat :: "timestamp option"
  max_retries :: int
  retry_count :: int
  retry_after :: "timestamp option"

datatype attempt_status = AttemptRunning | AttemptCompleted | AttemptFailed | AttemptTimeout

record attempt_row =
  attempt_id :: uuid
  a_job_id :: uuid
  a_executor_id :: string
  a_executor_ip :: string
  a_started_at :: timestamp
  a_ended_at :: "timestamp option"
  a_status :: attempt_status
  a_error_message :: "string option"

record store =
  jobs :: "job_row list"
  attempts :: "attempt_row list"

datatype db_error = UniqueViolation | CheckViolation | ForeignKeyViolation

text \<open>\<open>err.Error()\<close> of such an error: the message of the store, abridged.\<close>

definition error_text :: "db_error \<Rightarrow> string" where
  "error_text e =
     (case e of
        UniqueViolation \<Rightarrow> ''duplicate key value violates unique constraint''
      | CheckViolation \<Rightarrow> ''new row violates check constraint''
      | ForeignKeyViolation \<Rightarrow> ''insert violates foreign key constraint'')"

text \<open>The text of a priority, as the \<open>CHECK\<close> constraint reads it.\<close>

definition parse_priority :: "string \<Rightarrow> priority option" where
  "parse_priority s =
     (if s = ''foreground'' then Some Foreground
      else if s = ''background'' then Some Background
      else if s = ''best_effort'' then Some BestEffort
      else None)"

text \<open>\<open>UPDATE jobs SET ... WHERE ...\<close>: every row that satisfies the condition is
  replaced by its image; \<open>RETURNING *\<close> of a \<open>:one\<close> query yields the first
  post-image, or no row.\<close>

definition sql_update :: "(job_row \<Rightarrow> bool) \<Rightarrow> (job_row \<Rightarrow> job_row) \<Rightarrow> job_row list \<Rightarrow> job_row list" where
  "sql_update cond f js = map (\<lambda>j. if cond j then f j else j) js"

definition returning_one :: "(job_row \<Rightarrow> bool) \<Rightarrow> (job_row \<Rightarrow> job_row) \<Rightarrow> job_row list \<Rightarrow> job_row option" where
  "returning_one cond f js = (case filter cond js of [] \<Rightarrow> None | j # _ \<Rightarrow> Some (f j))"

subsection \<open>Queries on \<open>jobs\<close> (001_initial_schema.up.sql)\<close>

record create_job_params =
  p_type :: string
  p_binary_url :: string
  p_binary_sha256 :: string
  p_arguments :: "string list"
  p_env_variables :: "(string \<times> string) list"
  p_priority :: string

text \<open>\<open>CreateJob\<close>: the columns not named take their defaults: \<open>status\<close> pending,
  \<open>created_at\<close> now, \<open>max_retries\<close> and \<open>retry_count\<close> 0
  (002_add_retry_fields.up.sql), everything else NULL.\<close>

definition insert_job ::
  "create_job_params \<Rightarrow> status \<Rightarrow> int \<Rightarrow> uuid \<Rightarrow> timestamp \<Rightarrow> job_row list \<Rightarrow>
   db_error + (job_row \<times> job_row list)" where
  "insert_job p st maxr newid now js =
     (case parse_priority (p_priority p) of
        None \<Rightarrow> Inl CheckViolation
      | Some pr \<Rightarrow>
          if newid \<in> set (map job_id js) then Inl UniqueViolation
          else
            let row = \<lparr> job_id = newid, job_type = p_type p, binary_url = p_binary_url p,
                        binary_sha256 = p_binary_sha256 p, arguments = p_arguments p,
                        env_variables = p_env_variables p, priority = pr, status = st,
                        executor_id = None, stdout = None, stderr = None, exit_code = None,
                        error_message = None, created_at = now, started_at = None,
                        completed_at = None, last_heartbeat = None, max_retries = maxr,
                        retry_count = 0, retry_after = None \<rparr>
            in Inr (row, js @ [row]))"

definition CreateJob ::
  "create_job_params \<Rightarrow> uuid \<Rightarrow> timestamp \<Rightarrow> job_row list \<Rightarrow> db_error + (job_row \<times> job_row list)" where
  "CreateJob p newid now js = insert_job p Pending 0 newid now js"

text \<open>\<open>CreateJobWithRetries\<close> names \<open>status\<close> and \<open>max_retries\<close> as well.\<close>

definition CreateJobWithRetries ::
  "create_job_params \<Rightarrow> status \<Rightarrow> int \<Rightarrow> uuid \<Rightarrow> timestamp \<Rightarrow> job_row list \<Rightarrow>
   db_error + (job_row \<times> job_row list)" where
  "CreateJobWithRetries p st maxr newid now js = insert_job p st maxr newid now js"

definition GetJob :: "uuid \<Rightarrow> job_row list \<Rightarrow> job_row option" where
  "GetJob i js = find (\<lambda>j. job_id j = i) js"

definition cancel_cond :: "uuid \<Rightarrow> job_row \<Rightarrow> bool" where
  "cancel_cond i j = (job_id j = i \<and> status j = Pending)"

definition cancel_set :: "timestamp \<Rightarrow> job_row \<Rightarrow> job_row" where
  "cancel_set now j = j\<lparr>status := Cancelled, completed_at := Some now\<rparr>"

definition CancelJob :: "uuid \<Rightarrow> timestamp \<Rightarrow> job_row list \<Rightarrow> (job_row \<times> job_row list) option" where
  "CancelJob i now js =
     (case returning_one (cancel_cond i) (cancel_set now) js of
        None \<Rightarrow> None
      | Some r \<Rightarrow> Some (r, sql_update (cancel_cond i) (cancel_set now) js))"

text \<open>
  \<open>ClaimNextJob\<close>. The subquery orders the pending rows by the \<open>CASE\<close> rank of
  the priority and then by \<open>created_at\<close>, and keeps the first. Rows that tie on
  both come in an order SQL leaves open; the stable sort keeps table order.
  \<open>FOR UPDATE SKIP LOCKED\<close> matters only between concurrent statements: here
  every statement runs alone.
\<close>

definition priority_rank :: "priority \<Rightarrow> nat" where
  "priority_rank p = (case p of Foreground \<Rightarrow> 1 | Background \<Rightarrow> 2 | BestEffort \<Rightarrow> 3)"

definition claim_key :: "job_row \<Rightarrow> nat \<times> timestamp" where
  "claim_key j = (priority_rank (priority j), created_at j)"

definition next_pending :: "job_row list \<Rightarrow> uuid option" where
  "next_pending js =
     (case sort_key claim_key (filter (\<lambda>j. status j = Pending) js) of
        [] \<Rightarrow> None
      | j # _ \<Rightarrow> Some (job_id j))"

definition claim_set :: "string \<Rightarrow> timestamp \<Rightarrow> job_row \<Rightarrow> job_row" where
  "claim_set ex now j =
     j\<lparr>status := Running, executor_id := Some ex, started_at := Some now,
       last_heartbeat := Some now\<rparr>"

definition ClaimNextJob :: "string \<Rightarrow> timestamp \<Rightarrow> job_row list \<Rightarrow> (job_row \<times> job_row list) option" where
  "ClaimNextJob ex now js =
     (case next_pending js of
        None \<Rightarrow> None
      | Some i \<Rightarrow>
          (case returning_one (\<lambda>j. job_id j = i) (claim_set ex now) js of
             None \<Rightarrow> None
           | Some r \<Rightarrow> Some (r, sql_update (\<lambda>j. job_id j = i) (claim_set ex now) js)))"

definition heartbeat_cond :: "uuid \<Rightarrow> string \<Rightarrow> job_row \<Rightarrow> bool" where
  "heartbeat_cond i ex j = (job_id j = i \<and> executor_id j = Some ex \<and> status j = Running)"

definition UpdateHeartbeat :: "uuid \<Rightarrow> string \<Rightarrow> timestamp \<Rightarrow> job_row list \<Rightarrow> job_row list" where
  "UpdateHeartbeat i ex now js =
     sql_update (heartbeat_cond i ex) (\<lambda>j. j\<lparr>last_heartbeat := Some now\<rparr>) js"

definition running_cond :: "uuid \<Rightarrow> job_row \<Rightarrow> bool" where
  "running_cond i j = (job_id j = i \<and> status j = Running)"

definition complete_set ::
  "string option \<Rightarrow> string option \<Rightarrow> 32 word option \<Rightarrow> timestamp \<Rightarrow> job_row \<Rightarrow> job_row" where
  "complete_set out err ec now j =
     j\<lparr>status := Completed, stdout := out, stderr := err, exit_code := ec,
       completed_at := Some now\<rparr>"

definition CompleteJob ::
  "uuid \<Rightarrow> string option \<Rightarrow> string option \<Rightarrow> 32 word option \<Rightarrow> timestamp \<Rightarrow> job_row list \<Rightarrow>
   (job_row \<times> job_row list) option" where
  "CompleteJob i out err ec now js =
     (case returning_one (running_cond i) (complete_set out err ec now) js of
        None \<Rightarrow> None
      | Some r \<Rightarrow> Some (r, sql_update (running_cond i) (complete_set out err ec now) js))"

definition fail_set ::
  "string option \<Rightarrow> string option \<Rightarrow> 32 word option \<Rightarrow> string option \<Rightarrow> timestamp \<Rightarrow>
   job_row \<Rightarrow> job_row" where
  "fail_set out err ec msg now j =
     j\<lparr>status := Failed, stdout := out, stderr := err, exit_code := ec,
       error_message := msg, completed_at := Some now\<rparr>"

definition FailJob ::
  "uuid \<Rightarrow> string option \<Rightarrow> string option \<Rightarrow> 32 word option \<Rightarrow> string option \<Rightarrow> timestamp \<Rightarrow>
   job_row list \<Rightarrow> (job_row \<times> job_row list) option" where
  "FailJob i out err ec msg now js =
     (case returning_one (running_cond i) (fail_set out err ec msg now) js of
        None \<Rightarrow> None
      | Some r \<Rightarrow> Some (r, sql_update (running_cond i) (fail_set out err ec msg now) js))"

text \<open>\<open>FindStaleJobs\<close>: the interval is the literal 15 seconds; a NULL
  \<open>last_heartbeat\<close> compares as unknown and the row is not selected.\<close>

definition FindStaleJobs :: "timestamp \<Rightarrow> job_row list \<Rightarrow> job_row list" where
  "FindStaleJobs now js =
     filter (\<lambda>j. status j = Running \<and>
                 (case last_heartbeat j of None \<Rightarrow> False | Some h \<Rightarrow> h < now - 15000000)) js"

definition reset_set :: "job_row \<Rightarrow> job_row" where
  "reset_set j =
     j\<lparr>status := Pending, executor_id := None, started_at := None, last_heartbeat := None\<rparr>"

definition ResetStaleJob :: "uuid \<Rightarrow> job_row list \<Rightarrow> job_row list" where
  "ResetStaleJob i js = sql_update (running_cond i) reset_set js"

definition terminal :: "status \<Rightarrow> bool" where
  "terminal s = (s = Completed \<or> s = Failed \<or> s = Cancelled)"

definition cleanup_cond :: "timestamp \<Rightarrow> int \<Rightarrow> job_row \<Rightarrow> bool" where
  "cleanup_cond now interval j =
     (terminal (status j) \<and>
      (case completed_at j of None \<Rightarrow> False | Some c \<Rightarrow> c < now - interval))"

text \<open>\<open>CleanupOldJobs\<close> deletes the matching rows; \<open>ON DELETE CASCADE\<close> deletes
  the attempts of a deleted job with it.\<close>

definition CleanupOldJobs :: "int \<Rightarrow> timestamp \<Rightarrow> store \<Rightarrow> store" where
  "CleanupOldJobs interval now db =
     (let gone = map job_id (filter (cleanup_cond now interval) (jobs db)) in
      \<lparr> jobs = filter (\<lambda>j. \<not> cleanup_cond now interval j) (jobs db),
        attempts = filter (\<lambda>a. a_job_id a \<notin> set gone) (attempts db) \<rparr>)"

text \<open>\<open>GetRetriableJobs\<close> orders by the text of the priority, then by
  \<open>created_at\<close>, and keeps ten rows.\<close>

definition priority_text_rank :: "priority \<Rightarrow> nat" where
  "priority_text_rank p = (case p of Background \<Rightarrow> 1 | BestEffort \<Rightarrow> 2 | Foreground \<Rightarrow> 3)"

definition retriable :: "timestamp \<Rightarrow> job_row \<Rightarrow> bool" where
  "retriable now j =
     (status j = Failed \<and> retry_count j < max_retries j \<and>
      (case retry_after j of None \<Rightarrow> True | Some t \<Rightarrow> t < now))"

definition GetRetriableJobs :: "timestamp \<Rightarrow> job_row list \<Rightarrow> job_row list" where
  "GetRetriableJobs now js =
     take 10 (sort_key (\<lambda>j. (priority_text_rank (priority j), created_at j))
                (filter (retriable now) js))"

definition retry_cond :: "uuid \<Rightarrow> job_row \<Rightarrow> bool" where
  "retry_cond i j = (job_id j = i \<and> status j = Failed \<and> retry_count j < max_retries j)"

text \<open>\<open>IncrementJobRetry\<close>: one minute times \<open>POWER(2, retry_count)\<close>, read on the
  old row. \<open>retry_count\<close> starts at 0 and only this statement changes it, so the
  exponent is a natural number; an interval too large for the store is not
  modelled.\<close>

definition retry_set :: "timestamp \<Rightarrow> job_row \<Rightarrow> job_row" where
  "retry_set now j =
     j\<lparr>retry_count := retry_count j + 1, status := Pending,
       retry_after := Some (now + 60000000 * 2 ^ nat (retry_count j)),
       error_message := None, stdout := None, stderr := None, exit_code := None,
       started_at := None, completed_at := None, executor_id := None,
       last_heartbeat := None\<rparr>"

definition IncrementJobRetry :: "uuid \<Rightarrow> timestamp \<Rightarrow> job_row list \<Rightarrow> job_row list" where
  "IncrementJobRetry i now js = sql_update (retry_cond i) (retry_set now) js"

subsection \<open>Queries on \<open>job_attempts\<close>\<close>

text \<open>\<open>RecordJobAttempt\<close>: \<open>job_id\<close> references \<open>jobs(id)\<close>.\<close>

definition RecordJobAttempt ::
  "uuid \<Rightarrow> string \<Rightarrow> string \<Rightarrow> uuid \<Rightarrow> timestamp \<Rightarrow> store \<Rightarrow> db_error + (attempt_row \<times> attempt_row list)" where
  "RecordJobAttempt jid ex ip newid now db =
     (if jid \<notin> set (map job_id (jobs db)) then Inl ForeignKeyViolation
      else if newid \<in> set (map attempt_id (attempts db)) then Inl UniqueViolation
      else
        let row = \<lparr> attempt_id = newid, a_job_id = jid, a_executor_id = ex,
                    a_executor_ip = ip, a_started_at = now, a_ended_at = None,
                    a_status = AttemptRunning, a_error_message = None \<rparr>
        in Inr (row, attempts db @ [row]))"

text \<open>\<open>GetJobAttempts\<close>: the attempts of one job, newest first.\<close>

definition GetJobAttempts :: "uuid \<Rightarrow> attempt_row list \<Rightarrow> attempt_row list" where
  "GetJobAttempts jid as = rev (sort_key a_started_at (filter (\<lambda>a. a_job_id a = jid) as))"


section \<open>Coordinator: the job API (package server)\<close>

subsection \<open>Wire types (internal/models/job.go)\<close>

record job =
  ID :: uuid
  Type :: string
  BinaryURL :: string
  BinarySHA256 :: string
  Arguments :: "string list"
  EnvVariables :: "(string \<times> string) list"
  Priority :: string
  Status :: string
  ExecutorID :: string
  Stdout :: string
  Stderr :: string
  ExitCode :: "int option"
  ErrorMessage :: string
  CreatedAt :: timestamp
  StartedAt :: "timestamp option"
  CompletedAt :: "timestamp option"
  LastHeartbeat :: "timestamp option"

record job_attempt =
  at_ID :: uuid
  at_JobID :: uuid
  at_ExecutorID :: string
  at_ExecutorIP :: string
  at_StartedAt :: timestamp
  at_EndedAt :: "timestamp option"
  at_Status :: attempt_status
  at_ErrorMessage :: string

record job_submission =
  sub_Type :: string
  sub_BinaryURL :: string
  sub_BinarySHA256 :: string
  sub_Arguments :: "string list"
  sub_EnvVariables :: "(string \<times> string) list"
  sub_Priority :: string
  sub_MaxRetries :: int

record complete_request =
  cr_ExecutorID :: string
  cr_Stdout :: string
  cr_Stderr :: string
  cr_ExitCode :: int

record fail_request =
  fr_ExecutorID :: string
  fr_ErrorMessage :: string
  fr_Stdout :: string
  fr_Stderr :: string
  fr_ExitCode :: int

record config =
  CleanupInterval :: int
  JobRetention :: int
  HeartbeatTimeout :: int

datatype job_result = JobResult nat bool "uuid option" string

datatype body =
    NoBody
  | ErrorBody string
  | JobBody job
  | BulkBody nat nat nat "job_result list"
  | BulkCancelBody nat nat nat

datatype response = Response nat body

definition priority_text :: "priority \<Rightarrow> string" where
  "priority_text p =
     (case p of Foreground \<Rightarrow> ''foreground'' | Background \<Rightarrow> ''background''
      | BestEffort \<Rightarrow> ''best_effort'')"

definition status_text :: "status \<Rightarrow> string" where
  "status_text s =
     (case s of Pending \<Rightarrow> ''pending'' | Running \<Rightarrow> ''running'' | Completed \<Rightarrow> ''completed''
      | Failed \<Rightarrow> ''failed'' | Cancelled \<Rightarrow> ''cancelled'')"

definition text_or_empty :: "string option \<Rightarrow> string" where
  "text_or_empty t = (case t of None \<Rightarrow> [] | Some s \<Rightarrow> s)"

text \<open>\<open>dbJobToModel\<close>: a NULL text column becomes the empty string; the retry
  columns have no field in \<open>models.Job\<close>.\<close>

definition dbJobToModel :: "job_row \<Rightarrow> job" where
  "dbJobToModel j =
     \<lparr> ID = job_id j, Type = job_type j, BinaryURL = binary_url j,
       BinarySHA256 = binary_sha256 j, Arguments = arguments j,
       EnvVariables = env_variables j, Priority = priority_text (priority j),
       Status = status_text (status j), ExecutorID = text_or_empty (executor_id j),
       Stdout = text_or_empty (stdout j), Stderr = text_or_empty (stderr j),
       ExitCode = map_option sint (exit_code j),
       ErrorMessage = text_or_empty (error_message j), CreatedAt = created_at j,
       StartedAt = started_at j, CompletedAt = completed_at j,
       LastHeartbeat = last_heartbeat j \<rparr>"

definition attemptToModel :: "attempt_row \<Rightarrow> job_attempt" where
  "attemptToModel a =
     \<lparr> at_ID = attempt_id a, at_JobID = a_job_id a, at_ExecutorID = a_executor_id a,
       at_ExecutorIP = a_executor_ip a, at_StartedAt = a_started_at a,
       at_EndedAt = a_ended_at a, at_Status = a_status a,
       at_ErrorMessage = text_or_empty (a_error_message a) \<rparr>"

definition writeError :: "nat \<Rightarrow> string \<Rightarrow> response" where
  "writeError c msg = Response c (ErrorBody msg)"

subsection \<open>Handlers\<close>

text \<open>
  A handler takes the decoded request, the values the store draws while it
  runs (a fresh UUID, \<open>NOW()\<close>) and the store, and returns the response and the
  store after it. A body that does not decode is answered 400 before any of
  this, and a request with another method 405; a store that cannot be reached
  is not modelled. The Go methods of \<open>db.Queries\<close> are generated from the SQL
  above and are modelled by it; a \<open>:one\<close> query that yields no row returns
  the no-rows error, taken to be the one the handlers test with
  \<open>errors.Is(err, sql.ErrNoRows)\<close>.
\<close>

definition submission_params :: "job_submission \<Rightarrow> create_job_params" where
  "submission_params s =
     \<lparr> p_type = sub_Type s, p_binary_url = sub_BinaryURL s,
       p_binary_sha256 = sub_BinarySHA256 s, p_arguments = sub_Arguments s,
       p_env_variables = sub_EnvVariables s, p_priority = sub_Priority s \<rparr>"

definition handleSubmitJob :: "job_submission \<Rightarrow> uuid \<Rightarrow> timestamp \<Rightarrow> store \<Rightarrow> response \<times> store" where
  "handleSubmitJob submission newid now db =
     (if sub_Type submission = [] \<or> sub_BinaryURL submission = []
      then (writeError 400 ''type and binary_url are required'', db)
      else
        (case CreateJob (submission_params submission) newid now (jobs db) of
           Inl e \<Rightarrow> (writeError 500 ''Failed to create job'', db)
         | Inr (row, js) \<Rightarrow> (Response 201 (JobBody (dbJobToModel row)), db\<lparr>jobs := js\<rparr>)))"

text \<open>\<open>handleGetJob\<close> reads the attempts and converts them, and then encodes
  \<open>response\<close>, the job alone.\<close>

definition handleGetJob :: "uuid \<Rightarrow> store \<Rightarrow> response" where
  "handleGetJob jobID db =
     (case GetJob jobID (jobs db) of
        None \<Rightarrow> writeError 404 ''Job not found''
      | Some row \<Rightarrow>
          let atts = GetJobAttempts jobID (attempts db);
              response = dbJobToModel row;
              attemptModels = map attemptToModel atts
          in Response 200 (JobBody response))"

definition handleCancelJob :: "uuid \<Rightarrow> timestamp \<Rightarrow> store \<Rightarrow> response \<times> store" where
  "handleCancelJob jobID now db =
     (case CancelJob jobID now (jobs db) of
        None \<Rightarrow> (writeError 500 ''Failed to cancel job'', db)
      | Some (row, js) \<Rightarrow> (Response 204 NoBody, db\<lparr>jobs := js\<rparr>))"

text \<open>\<open>handleClaimJob\<close>: a failure to record the attempt is logged and the
  claim stands.\<close>

definition handleClaimJob :: "string \<Rightarrow> string \<Rightarrow> uuid \<Rightarrow> timestamp \<Rightarrow> store \<Rightarrow> response \<times> store" where
  "handleClaimJob executorID executorIP newid now db =
     (if executorID = [] \<or> executorIP = []
      then (writeError 400 ''executor_id and executor_ip are required'', db)
      else
        (case ClaimNextJob executorID now (jobs db) of
           None \<Rightarrow> (Response 204 NoBody, db)
         | Some (row, js) \<Rightarrow>
             let db1 = db\<lparr>jobs := js\<rparr>;
                 db2 = (case RecordJobAttempt (job_id row) executorID executorIP newid now db1 of
                          Inl e \<Rightarrow> db1
                        | Inr (a, as) \<Rightarrow> db1\<lparr>attempts := as\<rparr>)
             in (Response 200 (JobBody (dbJobToModel row)), db2)))"

definition handleHeartbeat :: "uuid \<Rightarrow> string \<Rightarrow> timestamp \<Rightarrow> store \<Rightarrow> response \<times> store" where
  "handleHeartbeat jobID executorID now db =
     (if executorID = [] then (writeError 400 ''executor_id is required'', db)
      else (Response 204 NoBody, db\<lparr>jobs := UpdateHeartbeat jobID executorID now (jobs db)\<rparr>))"

text \<open>\<open>int32(req.ExitCode)\<close> keeps the low 32 bits.\<close>

definition handleCompleteJob :: "uuid \<Rightarrow> complete_request \<Rightarrow> timestamp \<Rightarrow> store \<Rightarrow> response \<times> store" where
  "handleCompleteJob jobID req now db =
     (if cr_ExecutorID req = [] then (writeError 400 ''executor_id is required'', db)
      else
        (case CompleteJob jobID (Some (cr_Stdout req)) (Some (cr_Stderr req))
                (Some (word_of_int (cr_ExitCode req))) now (jobs db) of
           None \<Rightarrow> (writeError 500 ''Failed to complete job'', db)
         | Some (row, js) \<Rightarrow> (Response 204 NoBody, db\<lparr>jobs := js\<rparr>)))"

definition handleFailJob :: "uuid \<Rightarrow> fail_request \<Rightarrow> timestamp \<Rightarrow> store \<Rightarrow> response \<times> store" where
  "handleFailJob jobID req now db =
     (if fr_ExecutorID req = [] \<or> fr_ErrorMessage req = []
      then (writeError 400 ''executor_id and error_message are required'', db)
      else
        let out = (if fr_Stdout req \<noteq> [] then Some (fr_Stdout req) else None);
            err = (if fr_Stderr req \<noteq> [] then Some (fr_Stderr req) else None);
            ec = (if fr_ExitCode req \<noteq> 0 then Some (word_of_int (fr_ExitCode req)) else None)
        in
        (case FailJob jobID out err ec (Some (fr_ErrorMessage req)) now (jobs db) of
           None \<Rightarrow> (writeError 500 ''Failed to mark job as failed'', db)
         | Some (row, js) \<Rightarrow> (Response 204 NoBody, db\<lparr>jobs := js\<rparr>)))"

subsection \<open>Bulk operations\<close>

text \<open>The loop of \<open>handleBulkJobs\<close>: the index, the submissions left (each with
  the UUID the store would draw for it), the store, the results so far and the
  count of successes. \<open>int32(submission.MaxRetries)\<close> keeps the low 32 bits.\<close>

fun bulk_submit_loop ::
  "nat \<Rightarrow> (job_submission \<times> uuid) list \<Rightarrow> timestamp \<Rightarrow> store \<Rightarrow> job_result list \<Rightarrow> nat \<Rightarrow>
   store \<times> job_result list \<times> nat" where
  "bulk_submit_loop i [] now db results successCount = (db, results, successCount)"
| "bulk_submit_loop i ((submission, newid) # rest) now db results successCount =
     (if sub_Type submission = [] \<or> sub_BinaryURL submission = []
      then bulk_submit_loop (i + 1) rest now db
             (results @ [JobResult i False None ''type and binary_url are required''])
             successCount
      else
        (case CreateJobWithRetries (submission_params submission) Pending
                (sint (word_of_int (sub_MaxRetries submission) :: 32 word)) newid now (jobs db) of
           Inl e \<Rightarrow>
             bulk_submit_loop (i + 1) rest now db
               (results @ [JobResult i False None (error_text e)]) successCount
         | Inr (row, js) \<Rightarrow>
             bulk_submit_loop (i + 1) rest now (db\<lparr>jobs := js\<rparr>)
               (results @ [JobResult i True (Some (job_id row)) []]) (successCount + 1)))"

definition handleBulkJobs :: "(job_submission \<times> uuid) list \<Rightarrow> timestamp \<Rightarrow> store \<Rightarrow> response \<times> store" where
  "handleBulkJobs submissions now db =
     (if length submissions = 0 then (writeError 400 ''No jobs provided'', db)
      else if length submissions > 100 then (writeError 400 ''Too many jobs (max 100)'', db)
      else
        (case bulk_submit_loop 0 submissions now db [] 0 of
           (db', results, successCount) \<Rightarrow>
             let b = BulkBody (length submissions) successCount
                       (length submissions - successCount) results;
                 c = (if successCount = 0 then 400
                      else if successCount < length submissions then 206 else 201)
             in (Response c b, db')))"

text \<open>The loop of \<open>handleBulkCancel\<close>; an identifier that does not parse as a
  UUID is \<open>None\<close>.\<close>

fun bulk_cancel_loop ::
  "uuid option list \<Rightarrow> timestamp \<Rightarrow> store \<Rightarrow> nat \<Rightarrow> nat \<Rightarrow> store \<times> nat \<times> nat" where
  "bulk_cancel_loop [] now db cancelledCount failedCount = (db, cancelledCount, failedCount)"
| "bulk_cancel_loop (None # rest) now db cancelledCount failedCount =
     bulk_cancel_loop rest now db cancelledCount (failedCount + 1)"
| "bulk_cancel_loop (Some jobID # rest) now db cancelledCount failedCount =
     (case CancelJob jobID now (jobs db) of
        None \<Rightarrow> bulk_cancel_loop rest now db cancelledCount (failedCount + 1)
      | Some (row, js) \<Rightarrow>
          bulk_cancel_loop rest now (db\<lparr>jobs := js\<rparr>) (cancelledCount + 1) failedCount)"

definition handleBulkCancel ::
  "uuid option list \<Rightarrow> string \<Rightarrow> string \<Rightarrow> timestamp \<Rightarrow> store \<Rightarrow> response \<times> store" where
  "handleBulkCancel jobIDs ty st now db =
     (if length jobIDs > 0 then
        (case bulk_cancel_loop jobIDs now db 0 0 of
           (db', cancelledCount, failedCount) \<Rightarrow>
             (Response 200 (BulkCancelBody cancelledCount failedCount
                              (cancelledCount + failedCount)), db'))
      else if ty \<noteq> [] \<or> st \<noteq> []
      then (writeError 501 ''Cancellation by criteria not yet implemented'', db)
      else (writeError 400 ''Must provide job_ids or criteria'', db))"

subsection \<open>Background loops: one tick each\<close>

text \<open>One \<open>NOW()\<close> stands for the instants of the statements of a tick.\<close>

fun reset_each :: "job_row list \<Rightarrow> job_row list \<Rightarrow> job_row list" where
  "reset_each [] js = js"
| "reset_each (s # stale) js = reset_each stale (ResetStaleJob (job_id s) js)"

definition checkStaleJobs :: "timestamp \<Rightarrow> store \<Rightarrow> store" where
  "checkStaleJobs now db = db\<lparr>jobs := reset_each (FindStaleJobs now (jobs db)) (jobs db)\<rparr>"

text \<open>
  \<open>cleanupOldJobs\<close>: \<open>interval.Microseconds = int64(s.config.JobRetention) *
  3600000000\<close>, a product of 64-bit integers, which wraps.
\<close>

definition retention_microseconds :: "config \<Rightarrow> int" where
  "retention_microseconds cfg = sint ((word_of_int (JobRetention cfg) :: 64 word) * 3600000000)"

definition cleanupOldJobs :: "config \<Rightarrow> timestamp \<Rightarrow> store \<Rightarrow> store" where
  "cleanupOldJobs cfg now db = CleanupOldJobs (retention_microseconds cfg) now db"

fun retry_each :: "job_row list \<Rightarrow> timestamp \<Rightarrow> job_row list \<Rightarrow> job_row list" where
  "retry_each [] now js = js"
| "retry_each (r # rs) now js = retry_each rs now (IncrementJobRetry (job_id r) now js)"

definition retryFailedJobs :: "timestamp \<Rightarrow> store \<Rightarrow> store" where
  "retryFailedJobs now db = db\<lparr>jobs := retry_each (GetRetriableJobs now (jobs db)) now (jobs db)\<rparr>"

text \<open>\<open>runServer\<close>: the defaults of the configuration.\<close>

definition default_config :: config where
  "default_config = \<lparr> CleanupInterval = 3600, JobRetention = 172800, HeartbeatTimeout = 15 \<rparr>"

subsection \<open>The coordinator as a transition system\<close>

datatype operation =
    Submit job_submission uuid
  | BulkSubmit "(job_submission \<times> uuid) list"
  | Cancel uuid
  | BulkCancel "uuid option list" string string
  | Claim string string uuid
  | Heartbeat uuid string
  | Complete uuid complete_request
  | Fail uuid fail_request
  | StaleTick
  | CleanupTick
  | RetryTick

fun step :: "config \<Rightarrow> timestamp \<Rightarrow> operation \<Rightarrow> store \<Rightarrow> store" where
  "step cfg now (Submit s newid) db = snd (handleSubmitJob s newid now db)"
| "step cfg now (BulkSubmit ss) db = snd (handleBulkJobs ss now db)"
| "step cfg now (Cancel i) db = snd (handleCancelJob i now db)"
| "step cfg now (BulkCancel is ty st) db = snd (handleBulkCancel is ty st now db)"
| "step cfg now (Claim ex ip newid) db = snd (handleClaimJob ex ip newid now db)"
| "step cfg now (Heartbeat i ex) db = snd (handleHeartbeat i ex now db)"
| "step cfg now (Complete i req) db = snd (handleCompleteJob i req now db)"
| "step cfg now (Fail i req) db = snd (handleFailJob i req now db)"
| "step cfg now StaleTick db = checkStaleJobs now db"
| "step cfg now CleanupTick db = cleanupOldJobs cfg now db"
| "step cfg now RetryTick db = retryFailedJobs now db"

text \<open>A run: operations with the instants at which they execute.\<close>

fun run :: "config \<Rightarrow> (timestamp \<times> operation) list \<Rightarrow> store \<Rightarrow> store" where
  "run cfg [] db = db"
| "run cfg ((now, op) # ops) db = run cfg ops (step cfg now op db)"


section \<open>Worker startup: orphaned job directories (internal/executor/executor.go)\<close>

text \<open>
  The work directory is the list of its entries, as \<open>os.ReadDir\<close> returns them.
  What the file system decides is an input: whether \<open>ReadDir\<close> fails, and for
  which paths \<open>os.RemoveAll\<close> fails. The result is the directory's content
  after the call.
\<close>

record dir_entry =
  Name :: string
  IsDir :: bool

fun remove_orphans :: "(string \<Rightarrow> bool) \<Rightarrow> dir_entry list \<Rightarrow> dir_entry list" where
  "remove_orphans removeFails [] = []"
| "remove_orphans removeFails (entry # entries) =
     (if IsDir entry then
        (if removeFails (Name entry) then entry # remove_orphans removeFails entries
         else remove_orphans removeFails entries)
      else entry # remove_orphans removeFails entries)"

definition cleanupOrphanedDirectories ::
  "bool \<Rightarrow> (string \<Rightarrow> bool) \<Rightarrow> dir_entry list \<Rightarrow> dir_entry list" where
  "cleanupOrphanedDirectories readDirFails removeFails workDir =
     (if readDirFails then workDir else remove_orphans removeFails workDir)"

section \<open>Client SDK: the retrying transport (package utils, pkg/client/client.go)\<close>





















section \<open>Notions used to state the properties\<close>

text \<open>The transitions of the status that the life cycle of a job admits, from a
  row to a status: staying put, pending to running or cancelled, running to
  completed, failed or pending, and failed to pending while retries remain.\<close>

definition allowed_transition :: "job_row \<Rightarrow> status \<Rightarrow> bool" where
  "allowed_transition r s' =
     (s' = status r \<or>
      (status r = Pending \<and> (s' = Running \<or> s' = Cancelled)) \<or>
      (status r = Running \<and> (s' = Completed \<or> s' = Failed \<or> s' = Pending)) \<or>
      (status r = Failed \<and> s' = Pending \<and> retry_count r < max_retries r))"

text \<open>The job identifiers an operation draws from \<open>gen_random_uuid()\<close>.\<close>

fun drawn :: "operation \<Rightarrow> uuid list" where
  "drawn (Submit s newid) = [newid]"
| "drawn (BulkSubmit ss) = map snd ss"
| "drawn other = []"

definition drawn_all :: "(timestamp \<times> operation) list \<Rightarrow> uuid list" where
  "drawn_all ops = concat (map (\<lambda>(t, op). drawn op) ops)"

text \<open>
  How one row changes under a conditional update: it stays, or it satisfied
  the guard and is replaced by its image. A row evolves when it keeps its
  identifier and \<open>max_retries\<close>, its status moves along an admitted transition,
  and \<open>retry_count\<close> moves only while retries remain.
\<close>

definition guarded :: "(job_row \<Rightarrow> bool) \<Rightarrow> (job_row \<Rightarrow> job_row) \<Rightarrow> job_row \<Rightarrow> job_row \<Rightarrow> bool" where
  "guarded c f r r' = (r' = r \<or> (c r \<and> r' = f r))"

definition job_evolves :: "job_row \<Rightarrow> job_row \<Rightarrow> bool" where
  "job_evolves r r' =
     (job_id r' = job_id r \<and> max_retries r' = max_retries r \<and>
      allowed_transition r (status r') \<and>
      (retry_count r' = retry_count r \<or> retry_count r < max_retries r))"

text \<open>The three ways an operation changes the table: rows are updated in place,
  rows with drawn identifiers are appended, or rows are deleted.\<close>

definition shaped :: "uuid list \<Rightarrow> job_row list \<Rightarrow> job_row list \<Rightarrow> bool" where
  "shaped ids js js' =
     ((\<exists>c f. list_all2 (guarded c f) js js' \<and> (\<forall>r. c r \<longrightarrow> job_evolves r (f r))) \<or>
      (\<exists>xs. js' = js @ xs \<and> distinct (map job_id js') \<and> set (map job_id xs) \<subseteq> set ids) \<or>
      (\<exists>P. js' = filter P js))"

text \<open>The rows with identifier \<open>i\<close> have no retry left and never had one.\<close>

definition never_retried :: "uuid \<Rightarrow> job_row list \<Rightarrow> bool" where
  "never_retried i js =
     (distinct (map job_id js) \<and>
      list_all (\<lambda>r. job_id r \<noteq> i \<or> (max_retries r = 0 \<and> retry_count r = 0)) js)"

text \<open>Sample inputs: a pending background job, a well-formed submission, the
  empty store.\<close>

definition blank_job :: job_row where
  "blank_job =
     \<lparr> job_id = 0, job_type = ''t'', binary_url = ''u'', binary_sha256 = [], arguments = [],
       env_variables = [], priority = Background, status = Pending, executor_id = None,
       stdout = None, stderr = None, exit_code = None, error_message = None, created_at = 0,
       started_at = None, completed_at = None, last_heartbeat = None, max_retries = 0,
       retry_count = 0, retry_after = None \<rparr>"

definition blank_submission :: job_submission where
  "blank_submission =
     \<lparr> sub_Type = ''t'', sub_BinaryURL = ''u'', sub_BinarySHA256 = [], sub_Arguments = [],
       sub_EnvVariables = [], sub_Priority = ''background'', sub_MaxRetries = 0 \<rparr>"

definition empty_store :: store where
  "empty_store = \<lparr> jobs = [], attempts = [] \<rparr>"

text \<open>Sample environments: a file system on which no removal fails; a server that
  answers every attempt with 503, each on a fresh connection or each on a
  reused one, and a server that answers 200; a context that is never
  cancelled and one that is cancelled during the first wait.\<close>

definition no_failure :: "string \<Rightarrow> bool" where
  "no_failure path = False"










section \<open>Output truncation: bound and idempotence\<close>

lemma length_join_lines:
  "ls \<noteq> [] \<Longrightarrow> length (join_lines ls) + 1 = sum_list (map (\<lambda>l. length l + 1) ls)"
  by (induction ls rule: join_lines.induct) simp_all

lemma collect_tail_size:
  "sum_list (map (\<lambda>l. length l + 1) acc) = ts \<Longrightarrow> ts \<le> remaining \<Longrightarrow>
   sum_list (map (\<lambda>l. length l + 1) (collect_tail ls remaining ts acc)) \<le> remaining"
  by (induction ls remaining ts acc rule: collect_tail.induct) (simp_all add: Let_def)

lemma truncateOutput_bound: "length (truncateOutput s) \<le> maxOutputSize"
proof -
  have tail: "length (join_lines t) + 1 \<le> r"
    if "t = collect_tail ls r 0 []" and "t \<noteq> []" for t ls r
    using collect_tail_size [of "[]" 0 r ls] length_join_lines [of t] that by simp
  show ?thesis
    unfolding truncateOutput_def Let_def
    by (auto dest!: tail [OF refl])
qed

text \<open>
  C3. For every string \<open>s\<close>, \<open>truncateOutput s\<close> is at most \<open>maxOutputSize\<close>
  (1 MiB) bytes long, and truncating a truncated output changes nothing.
\<close>

theorem truncateOutput_bounded_idempotent:
  "length (truncateOutput s) \<le> maxOutputSize \<and>
   maxOutputSize = 1048576 \<and>
   truncateOutput (truncateOutput s) = truncateOutput s"
proof -
  have b: "length (truncateOutput s) \<le> maxOutputSize" by (rule truncateOutput_bound)
  have "truncateOutput (truncateOutput s) = truncateOutput s"
    using b by (subst truncateOutput_def) simp
  with b show ?thesis by (simp add: maxOutputSize_def)
qed

theorem truncateOutput_bounded_idempotent_witness:
  "truncateOutput ''ok'' = ''ok'' \<and> length (truncateOutput ''ok'') \<le> maxOutputSize \<and>
   truncateOutput (truncateOutput ''ok'') = truncateOutput ''ok''"
  using truncateOutput_bounded_idempotent [of "''ok''"]
  by (simp add: truncateOutput_def maxOutputSize_def)

section \<open>The store under the coordinator's operations\<close>

subsection \<open>Conditional updates, row by row\<close>

lemma sql_update_guarded:
  assumes "\<And>r. r \<in> set js \<Longrightarrow> cond r \<Longrightarrow> c r"
  shows "list_all2 (guarded c f) js (sql_update cond f js)"
  using assms by (induction js) (auto simp: sql_update_def guarded_def)

lemma guarded_loop:
  assumes once: "\<And>r. c r \<Longrightarrow> \<not> c (f r)"
    and sub: "\<And>r. cond r \<Longrightarrow> c r"
    and rel: "list_all2 (guarded c f) js js'"
  shows "list_all2 (guarded c f) js (sql_update cond f js')"
  using rel
proof (induction rule: list_all2_induct)
  case Nil
  then show ?case by (simp add: sql_update_def)
next
  case (Cons x xs y ys)
  have "guarded c f x (if cond y then f y else y)"
    using Cons.hyps(1) once sub by (auto simp: guarded_def)
  with Cons.IH show ?case by (simp add: sql_update_def)
qed

lemma guarded_refl: "list_all2 (guarded c f) js js"
  by (simp add: list_all2_refl guarded_def)

lemma related_by_id:
  assumes rel: "list_all2 R js js'"
    and ids: "\<And>a b. R a b \<Longrightarrow> job_id b = job_id a"
    and d: "distinct (map job_id js)"
    and r: "r \<in> set js" and r': "r' \<in> set js'" and eq: "job_id r' = job_id r"
  shows "R r r'"
proof -
  from r' obtain k where k: "k < length js'" "js' ! k = r'" by (auto simp: in_set_conv_nth)
  from rel have len: "length js = length js'" by (rule list_all2_lengthD)
  from rel k len have R: "R (js ! k) r'" by (auto dest: list_all2_nthD2)
  then have "job_id (js ! k) = job_id r" using ids eq by simp
  moreover have "js ! k \<in> set js" using k len by simp
  ultimately have "js ! k = r" using d r by (meson distinct_map inj_onD)
  with R show ?thesis by simp
qed

lemma shapedU:
  assumes "list_all2 (guarded c f) js js'" "\<And>r. c r \<Longrightarrow> job_evolves r (f r)"
  shows "shaped ids js js'"
  using assms unfolding shaped_def by blast

lemma shaped_refl: "shaped ids js js"
  by (rule shapedU [where c = "\<lambda>r. False"]) (simp_all add: guarded_refl)

lemma evolves_cancel: "status r = Pending \<Longrightarrow> job_evolves r (cancel_set now r)"
  by (simp add: job_evolves_def cancel_set_def allowed_transition_def)

lemma evolves_claim: "status r = Pending \<Longrightarrow> job_evolves r (claim_set ex now r)"
  by (simp add: job_evolves_def claim_set_def allowed_transition_def)

lemma evolves_heartbeat: "job_evolves r (r\<lparr>last_heartbeat := Some now\<rparr>)"
  by (simp add: job_evolves_def allowed_transition_def)

lemma evolves_complete: "status r = Running \<Longrightarrow> job_evolves r (complete_set out err ec now r)"
  by (simp add: job_evolves_def complete_set_def allowed_transition_def)

lemma evolves_fail: "status r = Running \<Longrightarrow> job_evolves r (fail_set out err ec msg now r)"
  by (simp add: job_evolves_def fail_set_def allowed_transition_def)

lemma evolves_reset: "status r = Running \<Longrightarrow> job_evolves r (reset_set r)"
  by (simp add: job_evolves_def reset_set_def allowed_transition_def)

lemma evolves_retry:
  "status r = Failed \<and> retry_count r < max_retries r \<Longrightarrow> job_evolves r (retry_set now r)"
  by (simp add: job_evolves_def retry_set_def allowed_transition_def)

lemma CancelJob_jobs:
  "CancelJob i now js = Some (row, js') \<Longrightarrow> js' = sql_update (cancel_cond i) (cancel_set now) js"
  by (auto simp: CancelJob_def split: option.splits)

lemma shaped_cancel: "shaped ids js (sql_update (cancel_cond i) (cancel_set now) js)"
  by (rule shapedU [where c = "\<lambda>r. status r = Pending" and f = "cancel_set now"])
     (auto intro!: sql_update_guarded simp: cancel_cond_def evolves_cancel)

lemma shaped_handleCancelJob: "shaped ids (jobs db) (jobs (snd (handleCancelJob i now db)))"
  by (auto simp: handleCancelJob_def shaped_refl shaped_cancel dest!: CancelJob_jobs
      split: option.splits)

lemma bulk_cancel_guarded:
  "list_all2 (guarded (\<lambda>r. status r = Pending) (cancel_set now)) js (jobs db) \<Longrightarrow>
   list_all2 (guarded (\<lambda>r. status r = Pending) (cancel_set now)) js
     (jobs (fst (bulk_cancel_loop is now db c f)))"
proof (induction "is" now db c f rule: bulk_cancel_loop.induct)
  case (3 jobID rest now db cancelledCount failedCount)
  show ?case
  proof (cases "CancelJob jobID now (jobs db)")
    case None
    with 3 show ?thesis by simp
  next
    case (Some p)
    obtain row js' where p: "p = (row, js')" by (cases p)
    have js': "js' = sql_update (cancel_cond jobID) (cancel_set now) (jobs db)"
      using Some p by (auto dest: CancelJob_jobs)
    have "list_all2 (guarded (\<lambda>r. status r = Pending) (cancel_set now)) js js'"
      unfolding js'
    proof (rule guarded_loop)
      show "\<not> status (cancel_set now r) = Pending" for r by (simp add: cancel_set_def)
      show "cancel_cond jobID r \<Longrightarrow> status r = Pending" for r by (simp add: cancel_cond_def)
      show "list_all2 (guarded (\<lambda>r. status r = Pending) (cancel_set now)) js (jobs db)"
        by (rule "3.prems")
    qed
    with 3 Some p show ?thesis by simp
  qed
qed simp_all

lemma shaped_handleBulkCancel:
  "shaped ids (jobs db) (jobs (snd (handleBulkCancel is ty st now db)))"
proof -
  have "shaped ids (jobs db) (jobs (fst (bulk_cancel_loop is now db 0 0)))"
    by (rule shapedU [OF bulk_cancel_guarded [OF guarded_refl]]) (simp add: evolves_cancel)
  then show ?thesis
    by (auto simp: handleBulkCancel_def shaped_refl writeError_def split: prod.splits)
qed


lemma next_pending_Some:
  assumes "next_pending js = Some i"
  shows "\<exists>j \<in> set js. job_id j = i \<and> status j = Pending \<and>
           (\<forall>p \<in> set js. status p = Pending \<longrightarrow> claim_key j \<le> claim_key p)"
proof -
  let ?ps = "filter (\<lambda>j. status j = Pending) js"
  from assms obtain j rest where s: "sort_key claim_key ?ps = j # rest" and i: "job_id j = i"
    by (auto simp: next_pending_def split: list.splits)
  have "j \<in> set (sort_key claim_key ?ps)" using s by simp
  then have j: "j \<in> set js" "status j = Pending" by auto
  have "sorted (map claim_key (sort_key claim_key ?ps))" by (rule sorted_sort_key)
  then have "\<forall>p \<in> set rest. claim_key j \<le> claim_key p" using s by simp
  moreover have "set ?ps = insert j (set rest)"
    using s by (metis list.simps(15) set_sort)
  ultimately have "\<forall>p \<in> set ?ps. claim_key j \<le> claim_key p" by auto
  with j i show ?thesis by auto
qed


lemma ClaimNextJob_jobs:
  assumes "ClaimNextJob ex now js = Some (row, js')"
  shows "\<exists>i. next_pending js = Some i \<and> js' = sql_update (\<lambda>j. job_id j = i) (claim_set ex now) js"
  using assms by (auto simp: ClaimNextJob_def split: option.splits)

lemma shaped_claim:
  assumes d: "distinct (map job_id js)" and c: "ClaimNextJob ex now js = Some (row, js')"
  shows "shaped ids js js'"
proof -
  from ClaimNextJob_jobs [OF c] obtain i where
    i: "next_pending js = Some i" and js': "js' = sql_update (\<lambda>j. job_id j = i) (claim_set ex now) js"
    by blast
  from next_pending_Some [OF i] obtain j where j: "j \<in> set js" "job_id j = i" "status j = Pending"
    by blast
  have only: "status r = Pending" if "r \<in> set js" "job_id r = i" for r
  proof -
    have "r = j" using d that j by (metis distinct_map inj_onD)
    with j show ?thesis by simp
  qed
  show ?thesis unfolding js'
    by (rule shapedU [where c = "\<lambda>r. status r = Pending" and f = "claim_set ex now"])
       (auto intro!: sql_update_guarded simp: only evolves_claim)
qed

lemma jobs_handleClaimJob:
  "jobs (snd (handleClaimJob ex ip newid now db)) =
     (if ex = [] \<or> ip = [] then jobs db
      else case ClaimNextJob ex now (jobs db) of None \<Rightarrow> jobs db | Some (row, js) \<Rightarrow> js)"
  by (auto simp: handleClaimJob_def Let_def split: option.splits sum.splits)

lemma shaped_handleClaimJob:
  "distinct (map job_id (jobs db)) \<Longrightarrow>
   shaped ids (jobs db) (jobs (snd (handleClaimJob ex ip newid now db)))"
  by (auto simp: jobs_handleClaimJob shaped_refl shaped_claim split: option.splits)

lemma shaped_handleHeartbeat: "shaped ids (jobs db) (jobs (snd (handleHeartbeat i ex now db)))"
proof -
  have "shaped ids js (UpdateHeartbeat i ex now js)" for js
    unfolding UpdateHeartbeat_def
    by (rule shapedU [where c = "\<lambda>r. True"]) (auto intro!: sql_update_guarded simp: evolves_heartbeat)
  then show ?thesis by (simp add: handleHeartbeat_def shaped_refl)
qed

lemma shaped_handleCompleteJob: "shaped ids (jobs db) (jobs (snd (handleCompleteJob i req now db)))"
proof -
  have "shaped ids js (sql_update (running_cond i) (complete_set out err ec now) js)" for js out err ec
    by (rule shapedU [where c = "\<lambda>r. status r = Running"])
       (auto intro!: sql_update_guarded simp: running_cond_def evolves_complete)
  then show ?thesis
    by (auto simp: handleCompleteJob_def CompleteJob_def shaped_refl split: option.splits)
qed

lemma shaped_handleFailJob: "shaped ids (jobs db) (jobs (snd (handleFailJob i req now db)))"
proof -
  have "shaped ids js (sql_update (running_cond i) (fail_set out err ec msg now) js)"
    for js out err ec msg
    by (rule shapedU [where c = "\<lambda>r. status r = Running"])
       (auto intro!: sql_update_guarded simp: running_cond_def evolves_fail)
  then show ?thesis
    by (auto simp: handleFailJob_def FailJob_def Let_def shaped_refl split: option.splits)
qed

lemma reset_each_guarded:
  "list_all2 (guarded (\<lambda>r. status r = Running) reset_set) js0 js \<Longrightarrow>
   list_all2 (guarded (\<lambda>r. status r = Running) reset_set) js0 (reset_each stale js)"
proof (induction stale js rule: reset_each.induct)
  case (2 s stale js)
  have "list_all2 (guarded (\<lambda>r. status r = Running) reset_set) js0 (ResetStaleJob (job_id s) js)"
    unfolding ResetStaleJob_def
  proof (rule guarded_loop)
    show "\<not> status (reset_set r) = Running" for r by (simp add: reset_set_def)
    show "running_cond (job_id s) r \<Longrightarrow> status r = Running" for r by (simp add: running_cond_def)
    show "list_all2 (guarded (\<lambda>r. status r = Running) reset_set) js0 js" by (rule "2.prems")
  qed
  then show ?case using 2 by simp
qed simp

lemma shaped_checkStaleJobs: "shaped ids (jobs db) (jobs (checkStaleJobs now db))"
  unfolding checkStaleJobs_def
  using shapedU [OF reset_each_guarded [OF guarded_refl]] by (simp add: evolves_reset)

lemma retry_each_guarded:
  "list_all2 (guarded (\<lambda>r. status r = Failed \<and> retry_count r < max_retries r) (retry_set now)) js0 js \<Longrightarrow>
   list_all2 (guarded (\<lambda>r. status r = Failed \<and> retry_count r < max_retries r) (retry_set now)) js0
     (retry_each rs now js)"
proof (induction rs now js rule: retry_each.induct)
  case (2 r rs now js)
  have "list_all2 (guarded (\<lambda>r. status r = Failed \<and> retry_count r < max_retries r) (retry_set now))
          js0 (IncrementJobRetry (job_id r) now js)"
    unfolding IncrementJobRetry_def
  proof (rule guarded_loop)
    show "\<not> (status (retry_set now x) = Failed \<and> retry_count (retry_set now x) < max_retries (retry_set now x))" for x
      by (simp add: retry_set_def)
    show "retry_cond (job_id r) x \<Longrightarrow> status x = Failed \<and> retry_count x < max_retries x" for x
      by (simp add: retry_cond_def)
    show "list_all2 (guarded (\<lambda>r. status r = Failed \<and> retry_count r < max_retries r) (retry_set now)) js0 js"
      by (rule "2.prems")
  qed
  then show ?case using 2 by simp
qed simp

lemma shaped_retryFailedJobs: "shaped ids (jobs db) (jobs (retryFailedJobs now db))"
  unfolding retryFailedJobs_def
  using shapedU [OF retry_each_guarded [OF guarded_refl]] by (simp add: evolves_retry)

lemma shaped_cleanupOldJobs: "shaped ids (jobs db) (jobs (cleanupOldJobs cfg now db))"
  unfolding shaped_def cleanupOldJobs_def CleanupOldJobs_def Let_def by auto

lemma insert_job_shape:
  assumes "insert_job p st maxr newid now js = Inr (row, js')" "distinct (map job_id js)"
  shows "js' = js @ [row] \<and> job_id row = newid \<and> distinct (map job_id js') \<and>
         max_retries row = maxr \<and> retry_count row = 0 \<and> status row = st \<and> created_at row = now"
  using assms by (auto simp: insert_job_def Let_def split: option.splits if_splits)

lemma shaped_handleSubmitJob:
  "distinct (map job_id (jobs db)) \<Longrightarrow>
   shaped [newid] (jobs db) (jobs (snd (handleSubmitJob s newid now db)))"
  by (auto simp: handleSubmitJob_def CreateJob_def shaped_refl split: sum.splits
      dest!: insert_job_shape) (auto simp: shaped_def)

lemma bulk_submit_shape:
  "distinct (map job_id (jobs db)) \<Longrightarrow>
   \<exists>xs. jobs (fst (bulk_submit_loop i ss now db results n)) = jobs db @ xs \<and>
        distinct (map job_id (jobs db @ xs)) \<and> set (map job_id xs) \<subseteq> set (map snd ss)"
proof (induction i ss now db results n rule: bulk_submit_loop.induct)
  case (1 i now db results successCount)
  then show ?case by simp
next
  case (2 i submission newid rest now db results successCount)
  show ?case
  proof (cases "sub_Type submission = [] \<or> sub_BinaryURL submission = []")
    case True
    from "2.IH"(1) [OF True "2.prems"] obtain xs where
      "jobs (fst (bulk_submit_loop (i + 1) rest now db
          (results @ [JobResult i False None ''type and binary_url are required'']) successCount))
        = jobs db @ xs"
      "distinct (map job_id (jobs db @ xs))" "set (map job_id xs) \<subseteq> set (map snd rest)"
      by blast
    then show ?thesis using True by (intro exI [where x = xs]) auto
  next
    case False
    show ?thesis
    proof (cases "CreateJobWithRetries (submission_params submission) Pending
                (sint (word_of_int (sub_MaxRetries submission) :: 32 word)) newid now (jobs db)")
      case (Inl e)
      from "2.IH"(2) [OF False Inl "2.prems"] obtain xs where
        "jobs (fst (bulk_submit_loop (i + 1) rest now db
            (results @ [JobResult i False None (error_text e)]) successCount))
          = jobs db @ xs"
        "distinct (map job_id (jobs db @ xs))" "set (map job_id xs) \<subseteq> set (map snd rest)"
        by blast
      then show ?thesis using False Inl by (intro exI [where x = xs]) auto
    next
      case (Inr p)
      obtain row js where p: "p = (row, js)" by (cases p)
      from Inr p "2.prems" have sh: "js = jobs db @ [row]" "job_id row = newid" "distinct (map job_id js)"
        by (auto simp: CreateJobWithRetries_def dest!: insert_job_shape)
      have "distinct (map job_id (jobs (db\<lparr>jobs := js\<rparr>)))" using sh by simp
      from "2.IH"(3) [OF False Inr p [symmetric] this] sh
      obtain xs where xs: "jobs (fst (bulk_submit_loop (i + 1) rest now (db\<lparr>jobs := js\<rparr>)
               (results @ [JobResult i True (Some (job_id row)) []]) (successCount + 1))) = js @ xs"
          "distinct (map job_id (js @ xs))" "set (map job_id xs) \<subseteq> set (map snd rest)"
        by auto
      show ?thesis
        using xs sh False Inr p by (intro exI [where x = "row # xs"]) auto
    qed
  qed
qed

lemma shaped_handleBulkJobs:
  assumes "distinct (map job_id (jobs db))"
  shows "shaped (map snd ss) (jobs db) (jobs (snd (handleBulkJobs ss now db)))"
proof -
  from bulk_submit_shape [OF assms, of 0 ss now "[]" 0]
  have "shaped (map snd ss) (jobs db) (jobs (fst (bulk_submit_loop 0 ss now db [] 0)))"
    unfolding shaped_def by metis
  then show ?thesis
    by (auto simp: handleBulkJobs_def shaped_refl writeError_def Let_def split: prod.splits)
qed

lemma shaped_step:
  "distinct (map job_id (jobs db)) \<Longrightarrow> shaped (drawn op) (jobs db) (jobs (step cfg now op db))"
  by (cases op)
     (simp_all add: shaped_handleSubmitJob shaped_handleBulkJobs shaped_handleCancelJob
        shaped_handleBulkCancel shaped_handleClaimJob shaped_handleHeartbeat
        shaped_handleCompleteJob shaped_handleFailJob shaped_checkStaleJobs
        shaped_cleanupOldJobs shaped_retryFailedJobs)

lemma job_evolves_refl: "job_evolves r r"
  by (simp add: job_evolves_def allowed_transition_def)

lemma guarded_evolves:
  assumes "\<And>r. c r \<Longrightarrow> job_evolves r (f r)" "guarded c f a b"
  shows "job_evolves a b"
  using assms by (auto simp: guarded_def job_evolves_refl)

lemma shaped_distinct:
  assumes "shaped ids js js'" "distinct (map job_id js)"
  shows "distinct (map job_id js')"
proof -
  have "map job_id js' = map job_id js"
    if "list_all2 (guarded c f) js js'" "\<forall>r. c r \<longrightarrow> job_evolves r (f r)" for c f
    using that(1)
  proof (induction rule: list_all2_induct)
    case (Cons x xs y ys)
    have "job_evolves x y" using that(2) Cons.hyps(1) by (auto intro: guarded_evolves)
    with Cons.IH show ?case by (simp add: job_evolves_def)
  qed simp
  then show ?thesis
    using assms unfolding shaped_def by (auto simp: distinct_map_filter)
qed

lemma shaped_evolves:
  assumes sh: "shaped ids js js'" and d: "distinct (map job_id js)"
    and r: "r \<in> set js" and r': "r' \<in> set js'" and eq: "job_id r' = job_id r"
  shows "job_evolves r r'"
proof -
  have same: "x = r" if "x \<in> set js" "job_id x = job_id r" for x
    using d r that by (meson distinct_map inj_onD)
  consider (upd) c f where "list_all2 (guarded c f) js js'" "\<forall>r. c r \<longrightarrow> job_evolves r (f r)"
    | (ins) xs where "js' = js @ xs" "distinct (map job_id js')"
    | (del) P where "js' = filter P js"
    using sh unfolding shaped_def by blast
  then show ?thesis
  proof cases
    case upd
    have "list_all2 job_evolves js js'"
      using upd by (auto elim!: list_all2_mono intro: guarded_evolves)
    then show ?thesis
      by (rule related_by_id) (use d r r' eq in \<open>auto simp: job_evolves_def\<close>)
  next
    case ins
    have "r' \<in> set js"
    proof (rule ccontr)
      assume "r' \<notin> set js"
      then have "r' \<in> set xs" using r' ins(1) by simp
      then have "job_id r' \<notin> job_id ` set js" using ins by auto
      then show False using r eq by (metis imageI)
    qed
    then have "r' = r" using same eq by blast
    then show ?thesis by (simp add: job_evolves_refl)
  next
    case del
    then have "r' \<in> set js" using r' by simp
    then have "r' = r" using same eq by blast
    then show ?thesis by (simp add: job_evolves_refl)
  qed
qed

lemma distinct_step:
  "distinct (map job_id (jobs db)) \<Longrightarrow> distinct (map job_id (jobs (step cfg now op db)))"
  by (rule shaped_distinct [OF shaped_step])

text \<open>
  C2. Every operation of the coordinator (submit, bulk submit, cancel, bulk
  cancel, claim, heartbeat, complete, fail) and every tick of its loops (stale
  reset, retention cleanup, retry promotion) moves the status of each job row
  along the life cycle only: from pending to running or cancelled, from running
  to completed, failed or pending, from failed to pending and only while
  \<open>retry_count < max_retries\<close>; completed and cancelled rows keep their
  status. Rows are told apart by the primary key, which is unique.
\<close>

theorem status_transitions_conform:
  assumes "distinct (map job_id (jobs db))"
    and "r \<in> set (jobs db)"
    and "r' \<in> set (jobs (step cfg now op db))"
    and "job_id r' = job_id r"
  shows "(status r = Pending \<longrightarrow> status r' = Pending \<or> status r' = Running \<or> status r' = Cancelled) \<and>
         (status r = Running \<longrightarrow>
            status r' = Running \<or> status r' = Completed \<or> status r' = Failed \<or> status r' = Pending) \<and>
         (status r = Failed \<longrightarrow>
            status r' = Failed \<or> (status r' = Pending \<and> retry_count r < max_retries r)) \<and>
         (status r = Completed \<longrightarrow> status r' = Completed) \<and>
         (status r = Cancelled \<longrightarrow> status r' = Cancelled)"
proof -
  have "job_evolves r r'"
    using shaped_evolves [OF shaped_step [OF assms(1)] assms(1) assms(2) assms(3) assms(4)] .
  then show ?thesis
    by (auto simp: job_evolves_def allowed_transition_def)
qed

theorem status_transitions_conform_witness:
  "distinct (map job_id (jobs \<lparr> jobs = [blank_job\<lparr>job_id := 1, status := Running\<rparr>], attempts = [] \<rparr>)) \<and>
   blank_job\<lparr>job_id := 1, status := Running\<rparr>
     \<in> set (jobs \<lparr> jobs = [blank_job\<lparr>job_id := 1, status := Running\<rparr>], attempts = [] \<rparr>) \<and>
   blank_job\<lparr>job_id := 1, status := Completed, stdout := Some ''out'', stderr := Some [],
     exit_code := Some 0, completed_at := Some 50\<rparr>
     \<in> set (jobs (step default_config 50
          (Complete 1 \<lparr> cr_ExecutorID = ''w1'', cr_Stdout = ''out'', cr_Stderr = [], cr_ExitCode = 0 \<rparr>)
          \<lparr> jobs = [blank_job\<lparr>job_id := 1, status := Running\<rparr>], attempts = [] \<rparr>)) \<and>
   status (blank_job\<lparr>job_id := 1, status := Running\<rparr>) = Running \<and>
   status (blank_job\<lparr>job_id := 1, status := Completed, stdout := Some ''out'', stderr := Some [],
     exit_code := Some 0, completed_at := Some 50\<rparr>) = Completed"
proof -
  let ?db = "\<lparr> jobs = [blank_job\<lparr>job_id := 1, status := Running\<rparr>], attempts = [] \<rparr>"
  let ?r' = "blank_job\<lparr>job_id := 1, status := Completed, stdout := Some ''out'', stderr := Some [],
     exit_code := Some 0, completed_at := Some 50\<rparr>"
  let ?op = "Complete 1 \<lparr> cr_ExecutorID = ''w1'', cr_Stdout = ''out'', cr_Stderr = [], cr_ExitCode = 0 \<rparr>"
  have d: "distinct (map job_id (jobs ?db))" by simp
  have r: "blank_job\<lparr>job_id := 1, status := Running\<rparr> \<in> set (jobs ?db)" by simp
  have r': "?r' \<in> set (jobs (step default_config 50 ?op ?db))"
    by (simp add: handleCompleteJob_def CompleteJob_def returning_one_def sql_update_def
        running_cond_def complete_set_def blank_job_def)
  have i: "job_id ?r' = job_id (blank_job\<lparr>job_id := 1, status := Running\<rparr>)" by simp
  show ?thesis
    using status_transitions_conform [OF d r r' i] d r r' by simp
qed

text \<open>
  The primary key stays unique under every operation, so the theorem applies
  along a whole run, and in every store reached from the empty one.
\<close>

lemma distinct_run:
  "distinct (map job_id (jobs db)) \<Longrightarrow> distinct (map job_id (jobs (run cfg ops db)))"
  by (induction ops arbitrary: db) (auto simp: distinct_step)

lemma distinct_reachable: "distinct (map job_id (jobs (run cfg ops empty_store)))"
  by (rule distinct_run) (simp add: empty_store_def)

subsection \<open>Single submission and retries\<close>

lemma never_retried_shaped:
  assumes inv: "never_retried i js" and sh: "shaped ids js js'" and fresh: "i \<notin> set ids"
  shows "never_retried i js'"
proof -
  have d: "distinct (map job_id js)" using inv by (simp add: never_retried_def)
  have old: "max_retries r = 0 \<and> retry_count r = 0" if "r \<in> set js" "job_id r = i" for r
    using inv that by (auto simp: never_retried_def list_all_iff)
  have "max_retries r' = 0 \<and> retry_count r' = 0" if r': "r' \<in> set js'" "job_id r' = i" for r'
  proof -
    consider (upd) c f where "list_all2 (guarded c f) js js'" "\<forall>r. c r \<longrightarrow> job_evolves r (f r)"
      | (ins) xs where "js' = js @ xs" "set (map job_id xs) \<subseteq> set ids"
      | (del) P where "js' = filter P js"
      using sh unfolding shaped_def by blast
    then show ?thesis
    proof cases
      case upd
      have rel: "list_all2 job_evolves js js'"
        using upd by (auto elim!: list_all2_mono intro: guarded_evolves)
      from r' obtain k where k: "k < length js'" "js' ! k = r'" by (auto simp: in_set_conv_nth)
      from rel k have e: "job_evolves (js ! k) r'" and kk: "k < length js"
        by (auto dest: list_all2_nthD2 list_all2_lengthD)
      then have "max_retries (js ! k) = 0 \<and> retry_count (js ! k) = 0"
        using old [of "js ! k"] r' by (simp add: job_evolves_def)
      with e show ?thesis by (auto simp: job_evolves_def)
    next
      case ins
      have "r' \<notin> set xs" using ins(2) fresh r'(2) by auto
      then show ?thesis using ins(1) r' old by auto
    next
      case del
      then show ?thesis using r' old by auto
    qed
  qed
  then show ?thesis
    using shaped_distinct [OF sh d] by (auto simp: never_retried_def list_all_iff)
qed

lemma never_retried_run:
  "never_retried i (jobs db) \<Longrightarrow> i \<notin> set (drawn_all ops) \<Longrightarrow> never_retried i (jobs (run cfg ops db))"
proof (induction ops arbitrary: db)
  case Nil
  then show ?case by simp
next
  case (Cons a ops)
  obtain t op where a: "a = (t, op)" by (cases a)
  have d: "distinct (map job_id (jobs db))" using Cons.prems(1) by (simp add: never_retried_def)
  have "never_retried i (jobs (step cfg t op db))"
    using never_retried_shaped [OF Cons.prems(1) shaped_step [OF d]] Cons.prems(2) a
    by (simp add: drawn_all_def)
  then show ?case using Cons.IH Cons.prems(2) a by (simp add: drawn_all_def)
qed

lemma retry_tick_unchanged:
  assumes inv: "never_retried i (jobs db)" and r: "r \<in> set (jobs db)" "job_id r = i"
    and r': "r' \<in> set (jobs (retryFailedJobs now db))" "job_id r' = i"
  shows "r' = r"
proof -
  let ?c = "\<lambda>r. status r = Failed \<and> retry_count r < max_retries r"
  have d: "distinct (map job_id (jobs db))" using inv by (simp add: never_retried_def)
  have rel: "list_all2 (guarded ?c (retry_set now)) (jobs db) (jobs (retryFailedJobs now db))"
    unfolding retryFailedJobs_def using retry_each_guarded [OF guarded_refl] by simp
  have "guarded ?c (retry_set now) r r'"
    by (rule related_by_id [OF rel _ d r(1) r'(1)])
       (use r r' in \<open>auto simp: guarded_def retry_set_def\<close>)
  moreover have "\<not> ?c r" using inv r by (auto simp: never_retried_def list_all_iff)
  ultimately show ?thesis by (simp add: guarded_def)
qed

lemma submit_row:
  assumes "handleSubmitJob s newid t0 db = (Response 201 b, db1)" "distinct (map job_id (jobs db))"
  shows "\<exists>row. jobs db1 = jobs db @ [row] \<and> b = JobBody (dbJobToModel row) \<and> job_id row = newid \<and>
           max_retries row = 0 \<and> retry_count row = 0 \<and> status row = Pending \<and> created_at row = t0 \<and>
           distinct (map job_id (jobs db1))"
  using assms
  by (auto simp: handleSubmitJob_def CreateJob_def writeError_def split: if_splits sum.splits
      dest!: insert_job_shape)

text \<open>
  C10. A job submitted through \<open>handleSubmitJob\<close> is stored with
  \<open>max_retries = 0\<close> whatever \<open>max_retries\<close> the submission carries (the same
  submission through \<open>handleBulkJobs\<close> is stored with the submitted value, cut to
  32 bits). As long as no later insertion draws the same UUID again, the row
  keeps \<open>max_retries = 0\<close> and \<open>retry_count = 0\<close> through every run of the
  coordinator, and a tick of the retry loop leaves it as it is: once failed, it
  stays failed.
\<close>

theorem single_submit_never_promoted:
  assumes d: "distinct (map job_id (jobs db))"
    and sub: "handleSubmitJob s newid t0 db = (Response 201 b, db1)"
    and fresh: "newid \<notin> set (drawn_all ops)"
    and r: "r \<in> set (jobs (run cfg ops db1))" "job_id r = newid"
    and r': "r' \<in> set (jobs (retryFailedJobs now (run cfg ops db1)))" "job_id r' = newid"
  shows "(\<exists>row. jobs db1 = jobs db @ [row] \<and> job_id row = newid \<and> max_retries row = 0) \<and>
         (\<exists>row. jobs (snd (handleBulkJobs [(s, newid)] t0 db)) = jobs db @ [row] \<and>
                job_id row = newid \<and>
                max_retries row = sint (word_of_int (sub_MaxRetries s) :: 32 word)) \<and>
         max_retries r = 0 \<and> retry_count r = 0 \<and> r' = r \<and>
         (status r = Failed \<longrightarrow> status r' = Failed)"
proof -
  from submit_row [OF sub d] obtain row where row: "jobs db1 = jobs db @ [row]" "job_id row = newid"
    "max_retries row = 0" "retry_count row = 0" "distinct (map job_id (jobs db1))" by blast
  have "list_all (\<lambda>r. job_id r \<noteq> newid \<or> (max_retries r = 0 \<and> retry_count r = 0)) (jobs db1)"
    using row by (auto simp: list_all_iff) (metis imageI)+
  then have inv1: "never_retried newid (jobs db1)" using row(5) by (simp add: never_retried_def)
  have inv: "never_retried newid (jobs (run cfg ops db1))"
    by (rule never_retried_run [OF inv1 fresh])
  have "r' = r" by (rule retry_tick_unchanged [OF inv r r'])
  moreover have "max_retries r = 0 \<and> retry_count r = 0"
    using inv r by (auto simp: never_retried_def list_all_iff)
  moreover have "\<exists>row. jobs (snd (handleBulkJobs [(s, newid)] t0 db)) = jobs db @ [row] \<and>
                job_id row = newid \<and>
                max_retries row = sint (word_of_int (sub_MaxRetries s) :: 32 word)"
    using sub
    by (auto simp: handleSubmitJob_def handleBulkJobs_def CreateJob_def CreateJobWithRetries_def
        insert_job_def writeError_def Let_def split: if_splits option.splits)
  ultimately show ?thesis using row by auto
qed

theorem single_submit_never_promoted_witness:
  "distinct (map job_id (jobs empty_store)) \<and>
   handleSubmitJob (blank_submission\<lparr>sub_MaxRetries := 5\<rparr>) 1 10 empty_store =
     (Response 201 (JobBody (dbJobToModel (blank_job\<lparr>job_id := 1, created_at := 10\<rparr>))),
      \<lparr> jobs = [blank_job\<lparr>job_id := 1, created_at := 10\<rparr>], attempts = [] \<rparr>) \<and>
   blank_job\<lparr>job_id := 1, created_at := 10, status := Failed, executor_id := Some ''w1'',
      started_at := Some 20, last_heartbeat := Some 20, exit_code := Some 1,
      error_message := Some ''boom'', completed_at := Some 30\<rparr>
     \<in> set (jobs (run default_config
          [(20, Claim ''w1'' ''h1'' 2),
           (30, Fail 1 \<lparr> fr_ExecutorID = ''w1'', fr_ErrorMessage = ''boom'', fr_Stdout = [],
                         fr_Stderr = [], fr_ExitCode = 1 \<rparr>)]
          \<lparr> jobs = [blank_job\<lparr>job_id := 1, created_at := 10\<rparr>], attempts = [] \<rparr>)) \<and>
   jobs (retryFailedJobs 1000000000 (run default_config
          [(20, Claim ''w1'' ''h1'' 2),
           (30, Fail 1 \<lparr> fr_ExecutorID = ''w1'', fr_ErrorMessage = ''boom'', fr_Stdout = [],
                         fr_Stderr = [], fr_ExitCode = 1 \<rparr>)]
          \<lparr> jobs = [blank_job\<lparr>job_id := 1, created_at := 10\<rparr>], attempts = [] \<rparr>)) =
     [blank_job\<lparr>job_id := 1, created_at := 10, status := Failed, executor_id := Some ''w1'',
        started_at := Some 20, last_heartbeat := Some 20, exit_code := Some 1,
        error_message := Some ''boom'', completed_at := Some 30\<rparr>]"
proof -
  let ?ops = "[(20, Claim ''w1'' ''h1'' 2),
           (30, Fail 1 \<lparr> fr_ExecutorID = ''w1'', fr_ErrorMessage = ''boom'', fr_Stdout = [],
                         fr_Stderr = [], fr_ExitCode = 1 \<rparr>)]"
  let ?db1 = "\<lparr> jobs = [blank_job\<lparr>job_id := 1, created_at := 10\<rparr>], attempts = [] \<rparr>"
  let ?r = "blank_job\<lparr>job_id := 1, created_at := 10, status := Failed, executor_id := Some ''w1'',
      started_at := Some 20, last_heartbeat := Some 20, exit_code := Some 1,
      error_message := Some ''boom'', completed_at := Some 30\<rparr>"
  have d: "distinct (map job_id (jobs empty_store))" by (simp add: empty_store_def)
  have sub: "handleSubmitJob (blank_submission\<lparr>sub_MaxRetries := 5\<rparr>) 1 10 empty_store =
     (Response 201 (JobBody (dbJobToModel (blank_job\<lparr>job_id := 1, created_at := 10\<rparr>))), ?db1)"
    by (simp add: handleSubmitJob_def CreateJob_def insert_job_def submission_params_def
        blank_submission_def blank_job_def empty_store_def parse_priority_def Let_def)
  have fresh: "1 \<notin> set (drawn_all ?ops)" by (simp add: drawn_all_def)
  have run: "jobs (run default_config ?ops ?db1) = [?r]"
    by (simp add: handleClaimJob_def ClaimNextJob_def next_pending_def returning_one_def
        sql_update_def claim_set_def RecordJobAttempt_def handleFailJob_def FailJob_def
        running_cond_def fail_set_def blank_job_def Let_def)
  have r: "?r \<in> set (jobs (run default_config ?ops ?db1))" "job_id ?r = 1"
    by (subst run) simp_all
  have "\<exists>r'. r' \<in> set (jobs (retryFailedJobs 1000000000 (run default_config ?ops ?db1))) \<and> job_id r' = 1"
    using run by (simp add: retryFailedJobs_def GetRetriableJobs_def retriable_def blank_job_def)
  then obtain r' where r': "r' \<in> set (jobs (retryFailedJobs 1000000000 (run default_config ?ops ?db1)))"
    "job_id r' = 1" by blast
  have same: "r' = ?r"
    using single_submit_never_promoted [OF d sub fresh r r'] by blast
  have f: "jobs (retryFailedJobs 1000000000 (run default_config ?ops ?db1)) = [?r]"
    using r' same run
    by (simp add: retryFailedJobs_def GetRetriableJobs_def retriable_def blank_job_def)
  show ?thesis by (intro conjI d sub r(1) f)
qed

section \<open>Claiming a job\<close>







section \<open>Heartbeats\<close>

lemma UpdateHeartbeat_twice:
  "UpdateHeartbeat i ex t2 (UpdateHeartbeat i ex t1 js) = UpdateHeartbeat i ex t2 js"
  by (induction js) (auto simp: UpdateHeartbeat_def sql_update_def heartbeat_cond_def)

lemma heartbeat_twice:
  "ex \<noteq> [] \<Longrightarrow>
   snd (handleHeartbeat i ex t2 (snd (handleHeartbeat i ex t1 db))) = snd (handleHeartbeat i ex t2 db)"
  by (simp add: handleHeartbeat_def UpdateHeartbeat_twice)

lemma heartbeat_fold:
  "ex \<noteq> [] \<Longrightarrow> ts \<noteq> [] \<Longrightarrow>
   fold (\<lambda>t d. snd (handleHeartbeat i ex t d)) ts db = snd (handleHeartbeat i ex (last ts) db)"
proof (induction ts arbitrary: db rule: rev_induct)
  case Nil
  then show ?case by simp
next
  case (snoc t ts)
  show ?case
  proof (cases "ts = []")
    case True
    then show ?thesis by simp
  next
    case False
    with snoc show ?thesis by (simp add: heartbeat_twice)
  qed
qed

lemma heartbeat_repeat:
  "ex \<noteq> [] \<Longrightarrow> 0 < n \<Longrightarrow>
   ((\<lambda>d. snd (handleHeartbeat i ex t d)) ^^ n) db = snd (handleHeartbeat i ex t db)"
proof (induction n)
  case 0
  then show ?case by simp
next
  case (Suc n)
  show ?case
  proof (cases "n = 0")
    case True
    then show ?thesis by simp
  next
    case False
    with Suc show ?thesis by (simp add: heartbeat_twice)
  qed
qed

lemma heartbeat_with_executor:
  assumes "executorID \<noteq> []"
  shows "fst (handleHeartbeat jobID executorID now db) = Response 204 NoBody \<and>
         jobs (snd (handleHeartbeat jobID executorID now db)) =
           map (\<lambda>j. if job_id j = jobID \<and> status j = Running \<and> executor_id j = Some executorID
                    then j\<lparr>last_heartbeat := Some now\<rparr> else j) (jobs db) \<and>
         attempts (snd (handleHeartbeat jobID executorID now db)) = attempts db \<and>
         (list_all (\<lambda>j. \<not> (job_id j = jobID \<and> status j = Running \<and> executor_id j = Some executorID))
            (jobs db) \<longrightarrow> snd (handleHeartbeat jobID executorID now db) = db)"
proof -
  have m: "UpdateHeartbeat jobID executorID now js =
           map (\<lambda>j. if job_id j = jobID \<and> status j = Running \<and> executor_id j = Some executorID
                    then j\<lparr>last_heartbeat := Some now\<rparr> else j) js" for js
    by (simp add: UpdateHeartbeat_def sql_update_def heartbeat_cond_def conj_commute)
  have n: "list_all (\<lambda>j. \<not> (job_id j = jobID \<and> status j = Running \<and> executor_id j = Some executorID)) js
           \<Longrightarrow> UpdateHeartbeat jobID executorID now js = js" for js
    unfolding m by (induction js) auto
  show ?thesis
    using assms by (auto simp: handleHeartbeat_def m [symmetric] n)
qed

text \<open>
  C7. A heartbeat carries an executor id; a request without one is the
  validation error of the API and is answered 400 with the store unchanged.
  Every heartbeat is answered 204; it sets \<open>last_heartbeat\<close> to now on exactly
  the rows with this job id that are running and owned by this executor, and
  changes nothing else, so for a wrong owner, a job that is not running or an
  absent job it succeeds with no effect. \<open>n\<close> heartbeats at one instant leave
  the store that one leaves, and heartbeats sent one after another leave the
  store that the last of them alone would leave.
\<close>

theorem heartbeat_owner_only:
  "(executorID \<noteq> [] \<longrightarrow>
      fst (handleHeartbeat jobID executorID now db) = Response 204 NoBody \<and>
      jobs (snd (handleHeartbeat jobID executorID now db)) =
        map (\<lambda>j. if job_id j = jobID \<and> status j = Running \<and> executor_id j = Some executorID
                 then j\<lparr>last_heartbeat := Some now\<rparr> else j) (jobs db) \<and>
      attempts (snd (handleHeartbeat jobID executorID now db)) = attempts db \<and>
      (list_all (\<lambda>j. \<not> (job_id j = jobID \<and> status j = Running \<and> executor_id j = Some executorID))
         (jobs db) \<longrightarrow> snd (handleHeartbeat jobID executorID now db) = db) \<and>
      (0 < n \<longrightarrow>
         ((\<lambda>d. snd (handleHeartbeat jobID executorID now d)) ^^ n) db =
           snd (handleHeartbeat jobID executorID now db)) \<and>
      (ts \<noteq> [] \<longrightarrow>
         fold (\<lambda>t d. snd (handleHeartbeat jobID executorID t d)) ts db =
           snd (handleHeartbeat jobID executorID (last ts) db))) \<and>
   (executorID = [] \<longrightarrow>
      handleHeartbeat jobID executorID now db =
        (Response 400 (ErrorBody ''executor_id is required''), db))"
proof (intro conjI impI)
  assume "executorID = []"
  then show "handleHeartbeat jobID executorID now db =
        (Response 400 (ErrorBody ''executor_id is required''), db)"
    by (simp add: handleHeartbeat_def writeError_def)
next
  assume e: "executorID \<noteq> []" and "0 < n"
  then show "((\<lambda>d. snd (handleHeartbeat jobID executorID now d)) ^^ n) db =
           snd (handleHeartbeat jobID executorID now db)"
    by (rule heartbeat_repeat)
next
  assume e: "executorID \<noteq> []" and "ts \<noteq> []"
  then show "fold (\<lambda>t d. snd (handleHeartbeat jobID executorID t d)) ts db =
           snd (handleHeartbeat jobID executorID (last ts) db)"
    by (rule heartbeat_fold)
next
  assume e: "executorID \<noteq> []"
  show "fst (handleHeartbeat jobID executorID now db) = Response 204 NoBody"
    using heartbeat_with_executor [OF e] by blast
next
  assume e: "executorID \<noteq> []"
  show "jobs (snd (handleHeartbeat jobID executorID now db)) =
        map (\<lambda>j. if job_id j = jobID \<and> status j = Running \<and> executor_id j = Some executorID
                 then j\<lparr>last_heartbeat := Some now\<rparr> else j) (jobs db)"
    using heartbeat_with_executor [OF e] by blast
next
  assume e: "executorID \<noteq> []"
  show "attempts (snd (handleHeartbeat jobID executorID now db)) = attempts db"
    using heartbeat_with_executor [OF e] by blast
next
  assume e: "executorID \<noteq> []"
    and "list_all (\<lambda>j. \<not> (job_id j = jobID \<and> status j = Running \<and> executor_id j = Some executorID))
         (jobs db)"
  then show "snd (handleHeartbeat jobID executorID now db) = db"
    using heartbeat_with_executor [OF e] by blast
qed

theorem heartbeat_owner_only_witness:
  "handleHeartbeat 1 ''w1'' 100
     \<lparr> jobs = [blank_job\<lparr>job_id := 1, status := Running, executor_id := Some ''w1''\<rparr>,
               blank_job\<lparr>job_id := 2, status := Running, executor_id := Some ''w2''\<rparr>],
       attempts = [] \<rparr> =
     (Response 204 NoBody,
      \<lparr> jobs = [blank_job\<lparr>job_id := 1, status := Running, executor_id := Some ''w1'',
                  last_heartbeat := Some 100\<rparr>,
                blank_job\<lparr>job_id := 2, status := Running, executor_id := Some ''w2''\<rparr>],
        attempts = [] \<rparr>) \<and>
   handleHeartbeat 2 ''w1'' 100
     \<lparr> jobs = [blank_job\<lparr>job_id := 2, status := Running, executor_id := Some ''w2''\<rparr>],
       attempts = [] \<rparr> =
     (Response 204 NoBody,
      \<lparr> jobs = [blank_job\<lparr>job_id := 2, status := Running, executor_id := Some ''w2''\<rparr>],
        attempts = [] \<rparr>) \<and>
   ((\<lambda>d. snd (handleHeartbeat 1 ''w1'' 100 d)) ^^ 3)
     \<lparr> jobs = [blank_job\<lparr>job_id := 1, status := Running, executor_id := Some ''w1''\<rparr>],
       attempts = [] \<rparr> =
     \<lparr> jobs = [blank_job\<lparr>job_id := 1, status := Running, executor_id := Some ''w1'',
                 last_heartbeat := Some 100\<rparr>],
       attempts = [] \<rparr> \<and>
   fold (\<lambda>t d. snd (handleHeartbeat 1 ''w1'' t d)) [100, 105, 110]
     \<lparr> jobs = [blank_job\<lparr>job_id := 1, status := Running, executor_id := Some ''w1''\<rparr>],
       attempts = [] \<rparr> =
     \<lparr> jobs = [blank_job\<lparr>job_id := 1, status := Running, executor_id := Some ''w1'',
                 last_heartbeat := Some 110\<rparr>],
       attempts = [] \<rparr> \<and>
   handleHeartbeat 1 [] 100 empty_store =
     (Response 400 (ErrorBody ''executor_id is required''), empty_store) \<and>
   handleHeartbeat 1 [] 100
     \<lparr> jobs = [blank_job\<lparr>job_id := 1, status := Running, executor_id := Some ''w1''\<rparr>],
       attempts = [] \<rparr> =
     (Response 400 (ErrorBody ''executor_id is required''),
      \<lparr> jobs = [blank_job\<lparr>job_id := 1, status := Running, executor_id := Some ''w1''\<rparr>],
        attempts = [] \<rparr>)"
proof -
  let ?own = "\<lparr> jobs = [blank_job\<lparr>job_id := 1, status := Running, executor_id := Some ''w1''\<rparr>],
       attempts = [] \<rparr>"
  let ?other = "\<lparr> jobs = [blank_job\<lparr>job_id := 2, status := Running, executor_id := Some ''w2''\<rparr>],
       attempts = [] \<rparr>"
  have e: "''w1'' \<noteq> []" by simp
  have one: "snd (handleHeartbeat 1 ''w1'' t ?own) =
     \<lparr> jobs = [blank_job\<lparr>job_id := 1, status := Running, executor_id := Some ''w1'',
                 last_heartbeat := Some t\<rparr>],
       attempts = [] \<rparr>" for t
    by (simp add: handleHeartbeat_def UpdateHeartbeat_def sql_update_def heartbeat_cond_def)
  have a: "handleHeartbeat 1 ''w1'' 100
     \<lparr> jobs = [blank_job\<lparr>job_id := 1, status := Running, executor_id := Some ''w1''\<rparr>,
               blank_job\<lparr>job_id := 2, status := Running, executor_id := Some ''w2''\<rparr>],
       attempts = [] \<rparr> =
     (Response 204 NoBody,
      \<lparr> jobs = [blank_job\<lparr>job_id := 1, status := Running, executor_id := Some ''w1'',
                  last_heartbeat := Some 100\<rparr>,
                blank_job\<lparr>job_id := 2, status := Running, executor_id := Some ''w2''\<rparr>],
        attempts = [] \<rparr>)"
    by (simp add: handleHeartbeat_def UpdateHeartbeat_def sql_update_def heartbeat_cond_def)
  have n: "list_all (\<lambda>j. \<not> (job_id j = 2 \<and> status j = Running \<and> executor_id j = Some ''w1''))
             (jobs ?other)"
    by simp
  have b1: "fst (handleHeartbeat 2 ''w1'' 100 ?other) = Response 204 NoBody"
    and b2: "snd (handleHeartbeat 2 ''w1'' 100 ?other) = ?other"
    using heartbeat_owner_only [of "''w1''" 2 100 ?other 1 "[]"] e n by blast+
  have b: "handleHeartbeat 2 ''w1'' 100 ?other = (Response 204 NoBody, ?other)"
    using b1 b2 by (simp add: prod_eq_iff)
  have "((\<lambda>d. snd (handleHeartbeat 1 ''w1'' 100 d)) ^^ 3) ?own = snd (handleHeartbeat 1 ''w1'' 100 ?own)"
    using heartbeat_owner_only [of "''w1''" 1 100 ?own 3 "[]"] e by simp
  then have c: "((\<lambda>d. snd (handleHeartbeat 1 ''w1'' 100 d)) ^^ 3) ?own =
     \<lparr> jobs = [blank_job\<lparr>job_id := 1, status := Running, executor_id := Some ''w1'',
                 last_heartbeat := Some 100\<rparr>],
       attempts = [] \<rparr>"
    by (simp only: one)
  have l: "last [100, 105, 110] = (110::int)" by simp
  have "fold (\<lambda>t d. snd (handleHeartbeat 1 ''w1'' t d)) [100, 105, 110] ?own =
          snd (handleHeartbeat 1 ''w1'' (last [100, 105, 110]) ?own)"
    using heartbeat_owner_only [of "''w1''" 1 100 ?own 1 "[100, 105, 110]"] e by blast
  then have f: "fold (\<lambda>t d. snd (handleHeartbeat 1 ''w1'' t d)) [100, 105, 110] ?own =
     \<lparr> jobs = [blank_job\<lparr>job_id := 1, status := Running, executor_id := Some ''w1'',
                 last_heartbeat := Some 110\<rparr>],
       attempts = [] \<rparr>"
    by (simp only: l one)
  have g: "handleHeartbeat 1 [] 100 empty_store =
     (Response 400 (ErrorBody ''executor_id is required''), empty_store)"
    using heartbeat_owner_only [of "[]" 1 100 empty_store 1 "[]"] by blast
  have h: "handleHeartbeat 1 [] 100 ?own =
     (Response 400 (ErrorBody ''executor_id is required''), ?own)"
    using heartbeat_owner_only [of "[]" 1 100 ?own 1 "[]"] by blast
  show ?thesis by (intro conjI a b c f g h)
qed

section \<open>Retention cleanup\<close>

lemma retention_default: "retention_microseconds default_config = 622080000000000"
  by (simp add: retention_microseconds_def default_config_def)

text \<open>
  C4. With the default configuration (\<open>JobRetention = 172800\<close>, that is 48 hours
  in seconds), a job completed 49 hours before the tick is older than the
  retention, yet the tick keeps it: \<open>cleanupOldJobs\<close> multiplies the seconds by
  the number of microseconds in an hour.
\<close>

theorem cleanup_keeps_job_past_retention:
  "JobRetention default_config = 172800 \<and>
   status (blank_job\<lparr>status := Completed, completed_at := Some 0\<rparr>) = Completed \<and>
   (0::int) < 176400000000 - 172800 * 1000000 \<and>
   cleanupOldJobs default_config 176400000000
     \<lparr> jobs = [blank_job\<lparr>status := Completed, completed_at := Some 0\<rparr>], attempts = [] \<rparr>
   = \<lparr> jobs = [blank_job\<lparr>status := Completed, completed_at := Some 0\<rparr>], attempts = [] \<rparr>"
proof -
  have "JobRetention default_config = 172800" by (simp add: default_config_def)
  then show ?thesis
    by (simp add: cleanupOldJobs_def CleanupOldJobs_def cleanup_cond_def terminal_def
        retention_default)
qed

section \<open>Reading a job\<close>

text \<open>The response of \<open>handleGetJob\<close> does not depend on the table of attempts.\<close>

lemma handleGetJob_ignores_attempts:
  "handleGetJob jobID (db\<lparr>attempts := as\<rparr>) = handleGetJob jobID db"
  by (simp add: handleGetJob_def Let_def split: option.splits)

text \<open>
  C5. \<open>handleGetJob\<close> on a job that has an attempt answers 200 with the job
  alone: the body has no place for the attempts the handler has read.
\<close>

theorem get_job_omits_attempts:
  "handleGetJob 1
     \<lparr> jobs = [blank_job\<lparr>job_id := 1, status := Running, executor_id := Some ''w''\<rparr>],
       attempts = [\<lparr> attempt_id = 7, a_job_id = 1, a_executor_id = ''w'', a_executor_ip = ''h'',
                     a_started_at = 5, a_ended_at = None, a_status = AttemptRunning,
                     a_error_message = None \<rparr>] \<rparr>
   = Response 200 (JobBody (dbJobToModel
       (blank_job\<lparr>job_id := 1, status := Running, executor_id := Some ''w''\<rparr>))) \<and>
   GetJobAttempts 1
     [\<lparr> attempt_id = 7, a_job_id = 1, a_executor_id = ''w'', a_executor_ip = ''h'',
        a_started_at = 5, a_ended_at = None, a_status = AttemptRunning,
        a_error_message = None \<rparr>] \<noteq> []"
  by (simp add: handleGetJob_def GetJob_def GetJobAttempts_def blank_job_def)

section \<open>Submitting a job\<close>

text \<open>
  C6, as the code has it. A submission whose type or binary URL is empty is
  answered 400 and inserts nothing. A submission with both present and a
  priority that is none of the three is answered 500 and inserts nothing: the
  \<open>CHECK\<close> constraint of the table rejects it. A submission with both present
  and a recognised priority is inserted, when its UUID is fresh, with status
  pending and \<open>created_at\<close> now; its type is not examined further.
\<close>

theorem submit_validation:
  "(sub_Type s = [] \<or> sub_BinaryURL s = [] \<longrightarrow>
      handleSubmitJob s newid now db =
        (Response 400 (ErrorBody ''type and binary_url are required''), db)) \<and>
   (sub_Type s \<noteq> [] \<and> sub_BinaryURL s \<noteq> [] \<and> parse_priority (sub_Priority s) = None \<longrightarrow>
      handleSubmitJob s newid now db = (Response 500 (ErrorBody ''Failed to create job''), db)) \<and>
   (sub_Type s \<noteq> [] \<and> sub_BinaryURL s \<noteq> [] \<and> parse_priority (sub_Priority s) \<noteq> None \<and>
    newid \<notin> set (map job_id (jobs db)) \<longrightarrow>
      (\<exists>row. handleSubmitJob s newid now db =
                (Response 201 (JobBody (dbJobToModel row)), db\<lparr>jobs := jobs db @ [row]\<rparr>) \<and>
             job_id row = newid \<and> status row = Pending \<and> created_at row = now \<and>
             job_type row = sub_Type s \<and> binary_url row = sub_BinaryURL s \<and>
             parse_priority (sub_Priority s) = Some (priority row)))"
  by (auto simp: handleSubmitJob_def CreateJob_def insert_job_def submission_params_def
      writeError_def Let_def)

theorem submit_validation_witness:
  "handleSubmitJob (blank_submission\<lparr>sub_Type := []\<rparr>) 1 10 empty_store =
     (Response 400 (ErrorBody ''type and binary_url are required''), empty_store) \<and>
   handleSubmitJob (blank_submission\<lparr>sub_Priority := ''urgent''\<rparr>) 1 10 empty_store =
     (Response 500 (ErrorBody ''Failed to create job''), empty_store) \<and>
   (\<exists>row. handleSubmitJob blank_submission 1 10 empty_store =
            (Response 201 (JobBody (dbJobToModel row)), empty_store\<lparr>jobs := jobs empty_store @ [row]\<rparr>) \<and>
          job_id row = 1 \<and> status row = Pending \<and> created_at row = 10)"
proof -
  have a: "sub_Type (blank_submission\<lparr>sub_Type := []\<rparr>) = []" by simp
  have b: "sub_Type (blank_submission\<lparr>sub_Priority := ''urgent''\<rparr>) \<noteq> [] \<and>
           sub_BinaryURL (blank_submission\<lparr>sub_Priority := ''urgent''\<rparr>) \<noteq> [] \<and>
           parse_priority (sub_Priority (blank_submission\<lparr>sub_Priority := ''urgent''\<rparr>)) = None"
    by (simp add: blank_submission_def parse_priority_def)
  have c: "sub_Type blank_submission \<noteq> [] \<and> sub_BinaryURL blank_submission \<noteq> [] \<and>
           parse_priority (sub_Priority blank_submission) \<noteq> None \<and>
           1 \<notin> set (map job_id (jobs empty_store))"
    by (simp add: blank_submission_def parse_priority_def empty_store_def)
  show ?thesis
    using submit_validation [of "blank_submission\<lparr>sub_Type := []\<rparr>" 1 10 empty_store] a
      submit_validation [of "blank_submission\<lparr>sub_Priority := ''urgent''\<rparr>" 1 10 empty_store] b
      submit_validation [of blank_submission 1 10 empty_store] c
    by blast
qed

text \<open>
  C6 as stated fails: a type with a space in it is accepted and
  inserted, and an unrecognised priority is answered 500, not 400.
\<close>

theorem submit_accepts_whitespace_type_counterexample:
  "CHR '' '' \<in> set (sub_Type (blank_submission\<lparr>sub_Type := ''a b''\<rparr>)) \<and>
   fst (handleSubmitJob (blank_submission\<lparr>sub_Type := ''a b''\<rparr>) 1 10 empty_store) =
     Response 201 (JobBody (dbJobToModel (blank_job\<lparr>job_id := 1, job_type := ''a b'', created_at := 10\<rparr>))) \<and>
   jobs (snd (handleSubmitJob (blank_submission\<lparr>sub_Type := ''a b''\<rparr>) 1 10 empty_store)) =
     [blank_job\<lparr>job_id := 1, job_type := ''a b'', created_at := 10\<rparr>] \<and>
   parse_priority ''urgent'' = None \<and>
   handleSubmitJob (blank_submission\<lparr>sub_Priority := ''urgent''\<rparr>) 1 10 empty_store =
     (Response 500 (ErrorBody ''Failed to create job''), empty_store)"
  by (simp add: handleSubmitJob_def CreateJob_def insert_job_def submission_params_def
      blank_submission_def blank_job_def empty_store_def parse_priority_def writeError_def
      Let_def)

section \<open>Orphaned directories at worker startup\<close>

lemma remove_orphans_filter:
  "remove_orphans removeFails es = filter (\<lambda>e. \<not> IsDir e \<or> removeFails (Name e)) es"
  by (induction es) auto

text \<open>
  C8, as the code has it. When the work directory can be read,
  \<open>cleanupOrphanedDirectories\<close> removes the entries that are directories and
  whose removal succeeds, and leaves every other entry; when all removals
  succeed, the entries left are exactly those that are not directories. When
  the work directory cannot be read, nothing is removed.
\<close>

theorem cleanup_removes_directories:
  "cleanupOrphanedDirectories False removeFails workDir =
     filter (\<lambda>e. \<not> IsDir e \<or> removeFails (Name e)) workDir \<and>
   cleanupOrphanedDirectories False (\<lambda>p. False) workDir = filter (\<lambda>e. \<not> IsDir e) workDir \<and>
   cleanupOrphanedDirectories True removeFails workDir = workDir"
  by (simp add: cleanupOrphanedDirectories_def remove_orphans_filter)

theorem cleanup_removes_directories_witness:
  "cleanupOrphanedDirectories False (\<lambda>p. p = ''busy'')
     [\<lparr> Name = ''job-1'', IsDir = True \<rparr>, \<lparr> Name = ''busy'', IsDir = True \<rparr>,
      \<lparr> Name = ''notes.txt'', IsDir = False \<rparr>]
   = [\<lparr> Name = ''busy'', IsDir = True \<rparr>, \<lparr> Name = ''notes.txt'', IsDir = False \<rparr>]"
  using cleanup_removes_directories [of "\<lambda>p. p = ''busy''"
      "[\<lparr> Name = ''job-1'', IsDir = True \<rparr>, \<lparr> Name = ''busy'', IsDir = True \<rparr>,
        \<lparr> Name = ''notes.txt'', IsDir = False \<rparr>]"]
  by simp

text \<open>
  C8 as stated fails: a regular file left in the work directory is
  still there after startup.
\<close>

theorem cleanup_leaves_files_counterexample:
  "cleanupOrphanedDirectories False no_failure
     [\<lparr> Name = ''job-1'', IsDir = True \<rparr>, \<lparr> Name = ''core.dump'', IsDir = False \<rparr>]
   = [\<lparr> Name = ''core.dump'', IsDir = False \<rparr>]"
  by (simp add: cleanupOrphanedDirectories_def no_failure_def)

section \<open>Retries in the client transport\<close>



















end
